theory Spec2Isabelle
  imports Main "HOL-Library.Sublist" "HOL-Library.Multiset"
begin

section \<open>Go library functions used by the program\<close>

text \<open>
  Go strings are byte sequences; they are modelled as \<^typ>\<open>string\<close>, one \<^typ>\<open>char\<close>
  per byte.  The functions of this section are those of the packages \<^verbatim>\<open>strings\<close>,
  \<^verbatim>\<open>path/filepath\<close> (Unix flavour, separator \<^verbatim>\<open>/\<close>) and \<^verbatim>\<open>sort\<close> that the
  program calls; they are written from the documentation of these packages.
\<close>

subsection \<open>Package strings\<close>

definition HasPrefix :: "string \<Rightarrow> string \<Rightarrow> bool" where
  "HasPrefix s p = (take (length p) s = p)"

definition HasSuffix :: "string \<Rightarrow> string \<Rightarrow> bool" where
  "HasSuffix s p = (length p \<le> length s \<and> drop (length s - length p) s = p)"

definition TrimSuffix :: "string \<Rightarrow> string \<Rightarrow> string" where
  "TrimSuffix s p = (if HasSuffix s p then take (length s - length p) s else s)"

fun Contains :: "string \<Rightarrow> string \<Rightarrow> bool" where
  "Contains [] sub = (sub = [])"
| "Contains (c # s) sub = (HasPrefix (c # s) sub \<or> Contains s sub)"

text \<open>
  \<^verbatim>\<open>strings.ToLower\<close>.  A string of ASCII bytes is lowered byte by byte, the letters
  \<^verbatim>\<open>A\<close> to \<^verbatim>\<open>Z\<close> becoming \<^verbatim>\<open>a\<close> to \<^verbatim>\<open>z\<close>: the first branch of the Go function.
  Any other string goes through \<^verbatim>\<open>strings.Map(unicode.ToLower, s)\<close>, which follows the
  Unicode tables of the Go release the program is built with.  The tables are not part of
  the program; that branch is the argument \<open>unicodeLower\<close>, a component of the world.
\<close>

definition asciiString :: "string \<Rightarrow> bool" where
  "asciiString s = list_all (\<lambda>c. of_char c < (128::nat)) s"

definition lowerByte :: "char \<Rightarrow> char" where
  "lowerByte c =
     (if (65::nat) \<le> of_char c \<and> of_char c \<le> (90::nat)
      then char_of (of_char c + (32::nat)) else c)"

definition ToLower :: "(string \<Rightarrow> string) \<Rightarrow> string \<Rightarrow> string" where
  "ToLower unicodeLower s = (if asciiString s then map lowerByte s else unicodeLower s)"

text \<open>
  White space as \<^verbatim>\<open>unicode.IsSpace\<close> has it, by the UTF-8 encodings of its characters:
  U+0009 to U+000D, U+0020, U+0085, U+00A0, U+1680, U+2000 to U+200A, U+2028, U+2029,
  U+202F, U+205F and U+3000.  \<open>leadingSpace\<close> is the number of bytes of the white space
  character a string starts with and \<open>trailingSpace\<close> that of the one it ends with, \<open>0\<close>
  when there is none.  A byte sequence that is not one of these encodings, valid or not,
  decodes to a character that is not white space.
\<close>

definition spaceRunes :: "string list" where
  "spaceRunes =
     [[CHR 0x09], [CHR 0x0A], [CHR 0x0B], [CHR 0x0C], [CHR 0x0D], [CHR 0x20],
      [CHR 0xC2, CHR 0x85], [CHR 0xC2, CHR 0xA0],
      [CHR 0xE1, CHR 0x9A, CHR 0x80],
      [CHR 0xE2, CHR 0x80, CHR 0x80], [CHR 0xE2, CHR 0x80, CHR 0x81],
      [CHR 0xE2, CHR 0x80, CHR 0x82], [CHR 0xE2, CHR 0x80, CHR 0x83],
      [CHR 0xE2, CHR 0x80, CHR 0x84], [CHR 0xE2, CHR 0x80, CHR 0x85],
      [CHR 0xE2, CHR 0x80, CHR 0x86], [CHR 0xE2, CHR 0x80, CHR 0x87],
      [CHR 0xE2, CHR 0x80, CHR 0x88], [CHR 0xE2, CHR 0x80, CHR 0x89],
      [CHR 0xE2, CHR 0x80, CHR 0x8A],
      [CHR 0xE2, CHR 0x80, CHR 0xA8], [CHR 0xE2, CHR 0x80, CHR 0xA9],
      [CHR 0xE2, CHR 0x80, CHR 0xAF], [CHR 0xE2, CHR 0x81, CHR 0x9F],
      [CHR 0xE3, CHR 0x80, CHR 0x80]]"

definition leadingSpace :: "string \<Rightarrow> nat" where
  "leadingSpace s =
     (case find (HasPrefix s) spaceRunes of None \<Rightarrow> 0 | Some e \<Rightarrow> length e)"

definition trailingSpace :: "string \<Rightarrow> nat" where
  "trailingSpace s =
     (case find (HasSuffix s) spaceRunes of None \<Rightarrow> 0 | Some e \<Rightarrow> length e)"

text \<open>
  \<^verbatim>\<open>strings.TrimSpace\<close>: the string without the white space characters it starts with
  and without those it ends with.
\<close>

function trimLeftSpace :: "string \<Rightarrow> string" where
  "trimLeftSpace s =
     (if leadingSpace s = 0 then s else trimLeftSpace (drop (leadingSpace s) s))"
  by pat_completeness auto
termination
proof (relation "measure length")
  show "wf (measure length)"
    by simp
next
  fix s :: string
  assume a: "leadingSpace s \<noteq> 0"
  have "leadingSpace [] = 0"
    by (simp add: leadingSpace_def spaceRunes_def HasPrefix_def)
  with a have "s \<noteq> []"
    by auto
  with a show "(drop (leadingSpace s) s, s) \<in> measure length"
    by simp
qed

function trimRightSpace :: "string \<Rightarrow> string" where
  "trimRightSpace s =
     (if trailingSpace s = 0 then s
      else trimRightSpace (take (length s - trailingSpace s) s))"
  by pat_completeness auto
termination
proof (relation "measure length")
  show "wf (measure length)"
    by simp
next
  fix s :: string
  assume a: "trailingSpace s \<noteq> 0"
  have "trailingSpace [] = 0"
    by (simp add: trailingSpace_def spaceRunes_def HasSuffix_def)
  with a have "s \<noteq> []"
    by auto
  with a show "(take (length s - trailingSpace s) s, s) \<in> measure length"
    by simp
qed

definition TrimSpace :: "string \<Rightarrow> string" where
  "TrimSpace s = trimRightSpace (trimLeftSpace s)"

text \<open>
  \<^verbatim>\<open>strings.Split\<close> (for the non-empty separators the program uses),
  \<^verbatim>\<open>strings.Fields\<close> (the stretches between white space; \<open>fieldLength\<close> is the
  number of bytes before the next white space character) and \<^verbatim>\<open>strings.Join\<close>.
\<close>

fun Split :: "string \<Rightarrow> string \<Rightarrow> string list" where
  "Split [] sep = [[]]"
| "Split (c # s) sep =
     (if sep \<noteq> [] \<and> HasPrefix (c # s) sep
      then [] # Split (drop (length sep) (c # s)) sep
      else (case Split s sep of [] \<Rightarrow> [[c]] | w # ws \<Rightarrow> (c # w) # ws))"

fun fieldLength :: "string \<Rightarrow> nat" where
  "fieldLength [] = 0"
| "fieldLength (c # s) = (if leadingSpace (c # s) \<noteq> 0 then 0 else Suc (fieldLength s))"

function Fields :: "string \<Rightarrow> string list" where
  "Fields s =
     (if s = [] then []
      else if leadingSpace s \<noteq> 0 then Fields (drop (leadingSpace s) s)
      else take (fieldLength s) s # Fields (drop (fieldLength s) s))"
  by pat_completeness auto
termination
proof (relation "measure length")
  show "wf (measure length)"
    by simp
next
  fix s :: string
  assume "s \<noteq> []" and "\<not> leadingSpace s \<noteq> 0"
  then have "fieldLength s \<noteq> 0"
    by (cases s) simp_all
  with \<open>s \<noteq> []\<close> show "(drop (fieldLength s) s, s) \<in> measure length"
    by simp
next
  fix s :: string
  assume "s \<noteq> []" and "leadingSpace s \<noteq> 0"
  then show "(drop (leadingSpace s) s, s) \<in> measure length"
    by simp
qed

declare trimLeftSpace.simps [simp del] trimRightSpace.simps [simp del] Fields.simps [simp del]

fun Join_strings :: "string list \<Rightarrow> string \<Rightarrow> string" where
  "Join_strings [] sep = []"
| "Join_strings [e] sep = e"
| "Join_strings (e # es) sep = e @ sep @ Join_strings es sep"

subsection \<open>Package path/filepath\<close>

text \<open>
  \<^verbatim>\<open>filepath.Clean\<close> walks the elements of the path from left to right: empty
  elements and \<^verbatim>\<open>.\<close> are dropped, \<^verbatim>\<open>..\<close> removes the element before it, is dropped at
  the root and is kept at the start of a relative path.  \<open>out\<close> holds the elements kept
  so far, the last one first.
\<close>

definition cleanStep :: "bool \<Rightarrow> string list \<Rightarrow> string \<Rightarrow> string list" where
  "cleanStep rooted out c =
     (if c = [] \<or> c = ''.'' then out
      else if c = ''..'' then
        (case out of
           [] \<Rightarrow> (if rooted then [] else [''..''])
         | t # ts \<Rightarrow> (if t = ''..'' then ''..'' # out else ts))
      else c # out)"

definition Clean :: "string \<Rightarrow> string" where
  "Clean p =
     (let rooted = HasPrefix p ''/'';
          body = Join_strings (rev (foldl (cleanStep rooted) [] (Split p ''/''))) ''/''
      in if rooted then ''/'' @ body else if body = [] then ''.'' else body)"

text \<open>\<^verbatim>\<open>filepath.Join\<close>: leading empty elements are ignored, the rest is joined and cleaned.\<close>

definition Join :: "string list \<Rightarrow> string" where
  "Join elem =
     (case dropWhile (\<lambda>e. e = []) elem of
        [] \<Rightarrow> []
      | e # es \<Rightarrow> Clean (Join_strings (e # es) ''/''))"

text \<open>\<^verbatim>\<open>filepath.Dir\<close>: the path up to its last separator, cleaned.\<close>

definition Dir :: "string \<Rightarrow> string" where
  "Dir p = Clean (rev (dropWhile (\<lambda>c. c \<noteq> CHR ''/'') (rev p)))"

subsection \<open>Package sort\<close>

text \<open>
  \<^verbatim>\<open>sort.Slice(xs, less)\<close>, as the insertion sort Go runs on short slices: each element
  in turn moves left while \<open>lt\<close> (Go's \<^verbatim>\<open>less\<close>) holds of it and its left
  neighbour.  \<open>acc\<close> is the sorted
  part, last element first.  Go does not promise a stable sort on long slices; the
  theorems about listings use only that the result is a rearrangement in order.
\<close>

fun insertLess :: "('a \<Rightarrow> 'a \<Rightarrow> bool) \<Rightarrow> 'a \<Rightarrow> 'a list \<Rightarrow> 'a list" where
  "insertLess lt x [] = [x]"
| "insertLess lt x (y # acc) =
     (if lt x y then y # insertLess lt x acc else x # y # acc)"

definition sort_Slice :: "('a \<Rightarrow> 'a \<Rightarrow> bool) \<Rightarrow> 'a list \<Rightarrow> 'a list" where
  "sort_Slice lt xs = rev (foldl (\<lambda>acc x. insertLess lt x acc) [] xs)"

section \<open>The file system\<close>

text \<open>
  A snapshot of the file system is a tree.  A node is a directory or anything else
  (\<open>File\<close>: a regular file, a symbolic link, a device ...; for all of these
  \<^verbatim>\<open>DirEntry.IsDir\<close> is false).  A directory carries a flag telling whether
  \<^verbatim>\<open>os.ReadDir\<close> succeeds on it, and its entries in the order \<^verbatim>\<open>os.ReadDir\<close> returns
  them.  An entry has its name, the modification time \<^verbatim>\<open>entry.Info()\<close> reports
  (\<open>None\<close> when \<^verbatim>\<open>Info\<close> fails) and the node.
\<close>

datatype ftype = Regular | Symlink | Special

datatype node = File ftype | Directory bool "entry list"
  and entry = Entry string "int option" node

fun entryName :: "entry \<Rightarrow> string" where
  "entryName (Entry n t d) = n"

fun entryInfo :: "entry \<Rightarrow> int option" where
  "entryInfo (Entry n t d) = t"

fun entryNode :: "entry \<Rightarrow> node" where
  "entryNode (Entry n t d) = d"

fun nodeIsDir :: "node \<Rightarrow> bool" where
  "nodeIsDir (File k) = False"
| "nodeIsDir (Directory r es) = True"

definition entryIsDir :: "entry \<Rightarrow> bool" where
  "entryIsDir e = nodeIsDir (entryNode e)"

text \<open>
  The world the program runs in: the tree, the working directory, the home directory
  (\<^verbatim>\<open>os.UserHomeDir\<close>, \<open>None\<close> on error), the path of the executable
  (\<^verbatim>\<open>os.Executable\<close>, \<open>None\<close> on error) and what running a command returns
  (\<^verbatim>\<open>exec.Command(name, args...).CombinedOutput()\<close>: the captured output and the text
  of the error, \<open>None\<close> for \<^verbatim>\<open>nil\<close>), and the lowering of the strings that are not
  ASCII by the Unicode tables of the Go release (\<^verbatim>\<open>strings.Map(unicode.ToLower, s)\<close>).
  The model is of the program on a Unix system.
\<close>

record world =
  root :: node
  cwd :: string
  home :: "string option"
  executable :: "string option"
  combinedOutput :: "string \<Rightarrow> string list \<Rightarrow> string \<times> string option"
  unicodeLower :: "string \<Rightarrow> string"

fun walk :: "node \<Rightarrow> string list \<Rightarrow> node option" where
  "walk n [] = Some n"
| "walk (File k) (c # cs) = None"
| "walk (Directory r es) (c # cs) =
     (case find (\<lambda>e. entryName e = c) es of
        None \<Rightarrow> None
      | Some e \<Rightarrow> walk (entryNode e) cs)"

text \<open>\<^verbatim>\<open>os.Stat\<close>: the node a path names, relative paths starting at the working directory.\<close>

definition Stat :: "world \<Rightarrow> string \<Rightarrow> node option" where
  "Stat w p =
     walk (root w)
       (filter (\<lambda>c. c \<noteq> [])
          (Split (Clean (if HasPrefix p ''/'' then p else Join [cwd w, p])) ''/''))"

text \<open>\<^verbatim>\<open>os.ReadDir\<close>: the entries, or \<open>None\<close> for an error.\<close>

fun readDirNode :: "node \<Rightarrow> entry list option" where
  "readDirNode (File k) = None"
| "readDirNode (Directory readable es) = (if readable then Some es else None)"

definition ReadDir :: "world \<Rightarrow> string \<Rightarrow> entry list option" where
  "ReadDir w p = (case Stat w p of None \<Rightarrow> None | Some n \<Rightarrow> readDirNode n)"

section \<open>Entries of the directory list\<close>

text \<open>
  \<^verbatim>\<open>type directoryItem struct { name string; path string; isDir bool; modTime time.Time }\<close>.
  A \<^verbatim>\<open>time.Time\<close> is modelled as an integer instant; the zero value
  \<^verbatim>\<open>time.Time{}\<close> is \<open>0\<close>.
\<close>

record directoryItem =
  name :: string
  path :: string
  isDir :: bool
  modTime :: int

subsection \<open>The filter engine\<close>

text \<open>
  \<^verbatim>\<open>filterDirectories(dirs, filter)\<close>, with its loop as \<open>filterLoop\<close>.  The argument
  \<open>ul\<close> is the lowering of the world, which \<^verbatim>\<open>strings.ToLower\<close> uses on the strings
  that are not ASCII.
\<close>

fun filterLoop :: "(string \<Rightarrow> string) \<Rightarrow> directoryItem list \<Rightarrow> string \<Rightarrow> directoryItem list" where
  "filterLoop ul [] flt = []"
| "filterLoop ul (dir # dirs) flt =
     (if Contains (ToLower ul (name dir)) flt
      then dir # filterLoop ul dirs flt else filterLoop ul dirs flt)"

definition filterDirectories :: "(string \<Rightarrow> string) \<Rightarrow> directoryItem list \<Rightarrow> string \<Rightarrow> directoryItem list" where
  "filterDirectories ul dirs flt =
     (if flt = [] then dirs else filterLoop ul dirs (ToLower ul flt))"



definition mkItem :: "string \<Rightarrow> directoryItem" where
  "mkItem n = \<lparr>name = n, path = n, isDir = True, modTime = 0\<rparr>"

section \<open>The filesystem lister\<close>

text \<open>
  \<^verbatim>\<open>isDirEmpty(dirPath)\<close>.  The directory is given by its node: reading
  \<^verbatim>\<open>filepath.Join(dirPath, entry.Name())\<close> gives the node of that entry.  The first loop
  of the source is \<open>list_ex\<close>, the second one is \<open>anySubdirHasFiles\<close>.
\<close>

fun isDirEmpty :: "node \<Rightarrow> bool"
  and anySubdirHasFiles :: "entry list \<Rightarrow> bool" where
  "isDirEmpty (File k) = True"
| "isDirEmpty (Directory readable entries) =
     (if \<not> readable then True
      else if list_ex (\<lambda>e. \<not> entryIsDir e) entries then False
      else if anySubdirHasFiles entries then False
      else True)"
| "anySubdirHasFiles [] = False"
| "anySubdirHasFiles (Entry n t d # entries) =
     (if nodeIsDir d \<and> \<not> isDirEmpty d then True else anySubdirHasFiles entries)"

text \<open>The loop of \<^verbatim>\<open>getDirectoryItems\<close> that collects \<^verbatim>\<open>dirItems\<close>.\<close>

fun collectDirs :: "string \<Rightarrow> entry list \<Rightarrow> directoryItem list" where
  "collectDirs dirPath [] = []"
| "collectDirs dirPath (e # entries) =
     (if entryIsDir e then
        (if entryName e = [] \<or> HasPrefix (entryName e) ''.'' then collectDirs dirPath entries
         else if length (TrimSpace (entryName e)) = 0 then collectDirs dirPath entries
         else if \<not> isDirEmpty (entryNode e)
           then \<lparr>name = entryName e, path = Join [dirPath, entryName e], isDir = True,
                 modTime = (case entryInfo e of None \<Rightarrow> 0 | Some t \<Rightarrow> t)\<rparr>
                # collectDirs dirPath entries
           else collectDirs dirPath entries)
      else collectDirs dirPath entries)"

text \<open>The items before the directory is read: the parent entry, unless at the root.\<close>

definition parentItems :: "string \<Rightarrow> directoryItem list" where
  "parentItems dirPath =
     (if Dir dirPath \<noteq> dirPath
      then [\<lparr>name = ''..'', path = Dir dirPath, isDir = True, modTime = 0\<rparr>] else [])"

definition getDirectoryItems :: "world \<Rightarrow> string \<Rightarrow> directoryItem list" where
  "getDirectoryItems w dirPath =
     (case ReadDir w dirPath of
        None \<Rightarrow> parentItems dirPath
      | Some entries \<Rightarrow>
          parentItems dirPath
          @ sort_Slice (\<lambda>a b. modTime b < modTime a) (collectDirs dirPath entries))"

fun convertToDirectoryItems :: "directoryItem list \<Rightarrow> directoryItem list" where
  "convertToDirectoryItems [] = []"
| "convertToDirectoryItems (item # items) = item # convertToDirectoryItems items"

text \<open>
  The lister of the simple variant (\<^verbatim>\<open>src/main.go\<close>), whose items have no modification
  time: the parent entry, the directories, then the first 20 other entries.
\<close>

record simpleItem =
  sname :: string
  spath :: string
  sisDir :: bool

definition parentItems_simple :: "string \<Rightarrow> simpleItem list" where
  "parentItems_simple dirPath =
     (if Dir dirPath \<noteq> dirPath
      then [\<lparr>sname = ''..'', spath = Dir dirPath, sisDir = True\<rparr>] else [])"

definition getDirectoryItems_simple :: "world \<Rightarrow> string \<Rightarrow> simpleItem list" where
  "getDirectoryItems_simple w dirPath =
     (case ReadDir w dirPath of
        None \<Rightarrow> parentItems_simple dirPath
      | Some entries \<Rightarrow>
          parentItems_simple dirPath
          @ map (\<lambda>e. \<lparr>sname = entryName e, spath = Join [dirPath, entryName e], sisDir = True\<rparr>)
              (filter entryIsDir entries)
          @ map (\<lambda>e. \<lparr>sname = entryName e, spath = Join [dirPath, entryName e], sisDir = False\<rparr>)
              (take 20 (filter (\<lambda>e. \<not> entryIsDir e) entries)))"

definition statIsDir :: "world \<Rightarrow> string \<Rightarrow> bool" where
  "statIsDir w p = (case Stat w p of None \<Rightarrow> False | Some n \<Rightarrow> nodeIsDir n)"

definition getDownloadsDirectory :: "world \<Rightarrow> string" where
  "getDownloadsDirectory w =
     (case home w of
        None \<Rightarrow> ''.''
      | Some userDir \<Rightarrow>
          (case find (statIsDir w)
                  [Join [userDir, ''Downloads''], Join [userDir, ''Download''],
                   Join [userDir, ''Documents''], userDir, ''.''] of
             None \<Rightarrow> ''.''
           | Some dir \<Rightarrow> dir))"

definition findPythonScript :: "world \<Rightarrow> string" where
  "findPythonScript w =
     (case executable w of
        None \<Rightarrow> []
      | Some execPath \<Rightarrow>
          (case find (\<lambda>p. Stat w p \<noteq> None)
                  [Join [Dir execPath, ''file_metadata_extractor.py''],
                   ''file_metadata_extractor.py'',
                   Join [''..'', ''file_metadata_extractor.py'']] of
             None \<Rightarrow> []
           | Some p \<Rightarrow> p))"

section \<open>The widgets and the messages\<close>

text \<open>
  A key message of the terminal library: \<^verbatim>\<open>Key{Type, Runes, Alt}\<close>.  A message of
  type \<open>KeyRunes\<close> carries the characters entered, one for a keystroke and several when
  text arrives in one piece.  The key types are those the program or its widgets react to.
\<close>

datatype keyType =
  KeyRunes | KeySpace | KeyEnter | KeyEsc | KeyBackspace | KeyTab
  | KeyUp | KeyDown | KeyLeft | KeyRight | KeyDelete | KeyHome | KeyEnd
  | KeyCtrlC | KeyCtrlD | KeyCtrlE

record keyMsg =
  kType :: keyType
  kRunes :: string
  kAlt :: bool

fun keyNames :: "keyType \<Rightarrow> string" where
  "keyNames KeyRunes = ''runes''"
| "keyNames KeySpace = '' ''"
| "keyNames KeyEnter = ''enter''"
| "keyNames KeyEsc = ''esc''"
| "keyNames KeyBackspace = ''backspace''"
| "keyNames KeyTab = ''tab''"
| "keyNames KeyUp = ''up''"
| "keyNames KeyDown = ''down''"
| "keyNames KeyLeft = ''left''"
| "keyNames KeyRight = ''right''"
| "keyNames KeyDelete = ''delete''"
| "keyNames KeyHome = ''home''"
| "keyNames KeyEnd = ''end''"
| "keyNames KeyCtrlC = ''ctrl+c''"
| "keyNames KeyCtrlD = ''ctrl+d''"
| "keyNames KeyCtrlE = ''ctrl+e''"

text \<open>\<^verbatim>\<open>msg.String()\<close>, the only view of a key the program itself takes.\<close>

definition String :: "keyMsg \<Rightarrow> string" where
  "String k =
     (if kAlt k then ''alt+'' else [])
     @ (if kType k = KeyRunes then kRunes k else keyNames (kType k))"

text \<open>
  The text input widget, by its value, its cursor and its focus.  Of its key map the model
  has the insertion of the characters of a message at the cursor, the deletion of one
  character and the cursor movements; editing by words and the clipboard are left out.
  An input without focus ignores keys.
\<close>

record textinput =
  tiValue :: string
  tiPos :: nat
  tiFocus :: bool

definition SetValue :: "textinput \<Rightarrow> string \<Rightarrow> textinput" where
  "SetValue ti s =
     (if (tiPos ti = 0 \<and> tiValue ti = []) \<or> length s < tiPos ti
      then ti\<lparr>tiValue := s, tiPos := length s\<rparr> else ti\<lparr>tiValue := s\<rparr>)"

definition Focus :: "textinput \<Rightarrow> textinput" where
  "Focus ti = ti\<lparr>tiFocus := True\<rparr>"

definition Blur :: "textinput \<Rightarrow> textinput" where
  "Blur ti = ti\<lparr>tiFocus := False\<rparr>"

definition deleteAt :: "nat \<Rightarrow> string \<Rightarrow> string" where
  "deleteAt i s = take i s @ drop (Suc i) s"

definition textinput_Update :: "textinput \<Rightarrow> keyMsg \<Rightarrow> textinput" where
  "textinput_Update ti k =
     (if \<not> tiFocus ti then ti
      else if kType k = KeyBackspace then
        (if tiPos ti = 0 then ti
         else ti\<lparr>tiValue := deleteAt (tiPos ti - 1) (tiValue ti), tiPos := tiPos ti - 1\<rparr>)
      else if kType k = KeyDelete \<or> kType k = KeyCtrlD then
        ti\<lparr>tiValue := deleteAt (tiPos ti) (tiValue ti)\<rparr>
      else if kType k = KeyLeft then ti\<lparr>tiPos := tiPos ti - 1\<rparr>
      else if kType k = KeyRight then ti\<lparr>tiPos := min (length (tiValue ti)) (Suc (tiPos ti))\<rparr>
      else if kType k = KeyHome then ti\<lparr>tiPos := 0\<rparr>
      else if kType k = KeyEnd \<or> kType k = KeyCtrlE then ti\<lparr>tiPos := length (tiValue ti)\<rparr>
      else ti\<lparr>tiValue := take (tiPos ti) (tiValue ti) @ kRunes k @ drop (tiPos ti) (tiValue ti),
              tiPos := tiPos ti + length (kRunes k)\<rparr>)"

text \<open>
  The list widget, by its items, its cursor, its title and its size.  Of its key map the
  model has the cursor keys; its pages, its help and its own filter are left out.
\<close>

record listModel =
  lmItems :: "directoryItem list"
  lmCursor :: nat
  lmTitle :: string
  lmWidth :: int
  lmHeight :: int

definition SetItems :: "listModel \<Rightarrow> directoryItem list \<Rightarrow> listModel" where
  "SetItems l xs = l\<lparr>lmItems := xs\<rparr>"

definition Select :: "listModel \<Rightarrow> nat \<Rightarrow> listModel" where
  "Select l i = l\<lparr>lmCursor := i\<rparr>"

definition SelectedItem :: "listModel \<Rightarrow> directoryItem option" where
  "SelectedItem l =
     (if lmCursor l < length (lmItems l) then Some (lmItems l ! lmCursor l) else None)"

definition list_Update :: "listModel \<Rightarrow> keyMsg \<Rightarrow> listModel" where
  "list_Update l k =
     (if String k = ''up'' \<or> String k = ''k'' then l\<lparr>lmCursor := lmCursor l - 1\<rparr>
      else if String k = ''down'' \<or> String k = ''j'' then
        (if Suc (lmCursor l) < length (lmItems l) then l\<lparr>lmCursor := Suc (lmCursor l)\<rparr> else l)
      else l)"

section \<open>The wizard state\<close>

datatype state =
  selectingDirectory | selectingOutput | selectingLitigant | configuring | processing | finished

text \<open>
  \<^verbatim>\<open>type model struct\<close> of the rich variant (\<^verbatim>\<open>src/file-indexer-tui/main.go\<close>).  The
  field \<^verbatim>\<open>processing\<close> is \<open>processing_fld\<close> here, the name being taken by the state.
\<close>

record model =
  state :: state
  directoryList :: listModel
  currentPath :: string
  outputInput :: textinput
  litigantInput :: textinput
  selectedDir :: string
  outputPath :: string
  litigantName :: string
  exportFormat :: string
  debugMode :: bool
  processing_fld :: bool
  result :: string
  error :: string
  width :: int
  height :: int
  autocompleteOptions :: "string list"
  autocompleteIndex :: int
  showingAutocomplete :: bool
  filtering :: bool
  filterInput :: textinput
  allDirectories :: "directoryItem list"
  filteredDirs :: "directoryItem list"
  advancedMode :: bool
  isSpanish :: bool

record processCompleteMsg =
  msg_result :: string
  msg_error :: string

datatype msg =
  WindowSizeMsg int int
  | KeyMsg keyMsg
  | ProcessCompleteMsg processCompleteMsg

text \<open>
  The commands \<^verbatim>\<open>Update\<close> returns: \<^verbatim>\<open>nil\<close>, \<^verbatim>\<open>tea.Quit\<close>, \<^verbatim>\<open>textinput.Blink\<close> and
  the closure of \<^verbatim>\<open>runPythonScript\<close>, which holds a copy of the model.  Commands of the
  widgets are \<open>CmdNil\<close>.
\<close>

datatype cmd = CmdNil | Quit | Blink | RunPythonScript model

definition initialModel :: "world \<Rightarrow> model" where
  "initialModel w =
     (let startDir = getDownloadsDirectory w;
          items = getDirectoryItems w startDir
      in \<lparr>state = selectingDirectory,
          directoryList = \<lparr>lmItems = items, lmCursor = 0, lmTitle = ''Navigate: '' @ startDir,
                            lmWidth = 120, lmHeight = 15\<rparr>,
          currentPath = startDir,
          outputInput = \<lparr>tiValue = [], tiPos = 0, tiFocus = True\<rparr>,
          litigantInput = \<lparr>tiValue = [], tiPos = 0, tiFocus = False\<rparr>,
          selectedDir = [], outputPath = [], litigantName = [],
          exportFormat = ''excel'', debugMode = False, processing_fld = False,
          result = [], error = [], width = 0, height = 0,
          autocompleteOptions = [], autocompleteIndex = 0, showingAutocomplete = False,
          filtering = False,
          filterInput = \<lparr>tiValue = [], tiPos = 0, tiFocus = False\<rparr>,
          allDirectories = convertToDirectoryItems items, filteredDirs = [],
          advancedMode = False, isSpanish = True\<rparr>)"

section \<open>The external process invoker\<close>

text \<open>The texts of the messages, as the bytes of their UTF-8 encoding.\<close>

definition scriptNotFound :: string where
  "scriptNotFound =
     [CHR 0xE2, CHR 0x9D, CHR 0x8C]
     @ '' Could not find file_metadata_extractor.py'' @ [CHR 0x0A, CHR 0x0A]
     @ ''Please ensure the Python script is in the same ''
     @ ''directory as this executable.'' @ [CHR 0x0A, CHR 0x0A]
     @ ''Required files:'' @ [CHR 0x0A, CHR 0xE2, CHR 0x80, CHR 0xA2]
     @ '' file_metadata_extractor.py''
     @ [CHR 0x0A, CHR 0xE2, CHR 0x80, CHR 0xA2] @ '' requirements.txt''"

definition executionFailed :: string where
  "executionFailed =
     [CHR 0xE2, CHR 0x9D, CHR 0x8C] @ '' Python execution failed: ''"

definition pythonMissingHint :: string where
  "pythonMissingHint =
     [CHR 0xF0, CHR 0x9F, CHR 0x90, CHR 0x8D]
     @ '' Python is not installed or not in PATH'' @ [CHR 0x0A, CHR 0x0A]
     @ ''Solutions:'' @ [CHR 0x0A]
     @ ''1. Install Python from https://python.org'' @ [CHR 0x0A]
     @ ''2. Make sure '' @ [CHR 0x27] @ ''Add Python to PATH'' @ [CHR 0x27]
     @ '' is checked during installation'' @ [CHR 0x0A]
     @ ''3. Restart this application after installing Python''
     @ [CHR 0x0A, CHR 0x0A]"

definition outputHeader :: string where
  "outputHeader =
     [CHR 0xF0, CHR 0x9F, CHR 0x93, CHR 0x8B] @ '' Output:'' @ [CHR 0x0A]"

definition successText :: "string \<Rightarrow> string \<Rightarrow> string" where
  "successText fileCount savedPath =
     ([CHR 0xF0, CHR 0x9F, CHR 0x8E, CHR 0x89]
      @ '' Index created successfully!''
      @ [CHR 0x0A, CHR 0x0A, CHR 0xF0, CHR 0x9F, CHR 0x93, CHR 0x8B]
      @ '' Files processed: '')
     @ fileCount
     @ ([CHR 0x0A, CHR 0xF0, CHR 0x9F, CHR 0x92, CHR 0xBE] @ '' Saved to: '')
     @ savedPath
     @ ([CHR 0x0A, CHR 0x0A, CHR 0xE2, CHR 0x9C, CHR 0x85]
        @ '' Your file index is ready to use!'')"

text \<open>The output file name with the extension filled in, and its full path.\<close>

definition outputFilename :: "model \<Rightarrow> string" where
  "outputFilename m =
     (if \<not> Contains (outputPath m) ''.'' then
        (if exportFormat m = ''csv'' then outputPath m @ ''.csv'' else outputPath m @ ''.xlsx'')
      else outputPath m)"

definition fullOutputPath :: "model \<Rightarrow> string" where
  "fullOutputPath m = Join [selectedDir m, outputFilename m]"

text \<open>The slice \<^verbatim>\<open>args\<close> that \<^verbatim>\<open>runPythonScript\<close> builds and hands to the interpreter.\<close>

definition buildArgs :: "string \<Rightarrow> model \<Rightarrow> string list" where
  "buildArgs scriptPath m =
     [scriptPath]
     @ [''--directory'', selectedDir m]
     @ [''--output'', fullOutputPath m]
     @ (if exportFormat m = ''csv'' then [''--csv-only'']
        else if exportFormat m = ''both'' then [''--csv''] else [])
     @ (if debugMode m then [''--debug''] else [])
     @ (if litigantName m \<noteq> [] then [''--litigant'', litigantName m] else [])"

text \<open>The scan of the output of a successful run for the saved path and the file count.\<close>

definition savedPathOf :: "string \<Rightarrow> string \<Rightarrow> string" where
  "savedPathOf full outputStr =
     (if Contains outputStr ''saved to:'' then
        (case find (\<lambda>line. Contains line ''saved to:'') (Split outputStr [CHR 0x0A]) of
           None \<Rightarrow> full
         | Some line \<Rightarrow>
             (case Split line ''saved to:'' of
                a # b # rest \<Rightarrow> TrimSpace b
              | _ \<Rightarrow> full))
      else full)"

fun wordBeforeFile :: "string list \<Rightarrow> string option" where
  "wordBeforeFile (a # b # ws) =
     (if Contains b ''file'' then Some a else wordBeforeFile (b # ws))"
| "wordBeforeFile ws = None"

definition fileCountOf :: "string \<Rightarrow> string" where
  "fileCountOf outputStr =
     (if Contains outputStr ''processed'' then
        (case find (\<lambda>line. Contains line ''processed'' \<and> Contains line ''file'')
                (Split outputStr [CHR 0x0A]) of
           None \<Rightarrow> ''multiple''
         | Some line \<Rightarrow>
             (case wordBeforeFile (Fields line) of None \<Rightarrow> ''multiple'' | Some n \<Rightarrow> n))
      else ''multiple'')"

text \<open>
  The closure \<^verbatim>\<open>runPythonScript\<close> returns, run in a world: the completion message.
\<close>

definition runPythonScript :: "world \<Rightarrow> model \<Rightarrow> processCompleteMsg" where
  "runPythonScript w m =
     (if findPythonScript w = [] then \<lparr>msg_result = [], msg_error = scriptNotFound\<rparr>
      else
        (case combinedOutput w ''python3'' (buildArgs (findPythonScript w) m) of
           (output, Some err) \<Rightarrow>
             \<lparr>msg_result = [],
              msg_error =
                executionFailed @ err @ [CHR 0x0A, CHR 0x0A]
                @ (if Contains err ''executable file not found'' then pythonMissingHint else [])
                @ outputHeader @ output\<rparr>
         | (output, None) \<Rightarrow>
             \<lparr>msg_result = successText (fileCountOf output) (savedPathOf (fullOutputPath m) output),
              msg_error = []\<rparr>))"

section \<open>The update function of the rich variant\<close>

text \<open>
  \<^verbatim>\<open>func (m model) Update(msg tea.Msg) (tea.Model, tea.Cmd)\<close>, for the three kinds of
  message its \<^verbatim>\<open>switch\<close> names.  \<^verbatim>\<open>View\<close> reads the model and changes nothing; it is
  not modelled.
\<close>

text \<open>
  The block the source repeats after every change of \<^verbatim>\<open>m.currentPath\<close>: list the
  directory again, show the items, put the cursor on the first one, set the title and
  keep the items for the filter.
\<close>

definition relist :: "world \<Rightarrow> model \<Rightarrow> model" where
  "relist w m =
     (let items = getDirectoryItems w (currentPath m)
      in m\<lparr>directoryList :=
             (Select (SetItems (directoryList m) items) 0)\<lparr>lmTitle := ''Navigate: '' @ currentPath m\<rparr>,
           allDirectories := convertToDirectoryItems items\<rparr>)"

text \<open>
  Each handler is one \<^verbatim>\<open>case\<close> of the \<^verbatim>\<open>switch m.state\<close>.  It gives the model and
  \<open>Some\<close> command where the source returns, and \<open>None\<close> where control leaves the
  \<^verbatim>\<open>switch\<close> and reaches the update of the widgets at the end of \<^verbatim>\<open>Update\<close>.
\<close>

definition updateFiltering :: "world \<Rightarrow> model \<Rightarrow> keyMsg \<Rightarrow> model \<times> cmd option" where
  "updateFiltering w m k =
     (if String k = ''ctrl+c'' \<or> String k = ''q'' then (m, Some Quit)
      else if String k = ''esc'' then
        (relist w (m\<lparr>filtering := False, filterInput := Blur (SetValue (filterInput m) [])\<rparr>),
         Some CmdNil)
      else if String k = ''enter'' then
        (m\<lparr>filtering := False, filterInput := Blur (filterInput m)\<rparr>, Some CmdNil)
      else if String k = ''tab'' then
        ((case filteredDirs m of
            [] \<Rightarrow> m
          | d # ds \<Rightarrow> m\<lparr>filterInput := SetValue (filterInput m) (name d)\<rparr>),
         Some CmdNil)
      else
        (let fi = textinput_Update (filterInput m) k;
             fd = filterDirectories (unicodeLower w) (allDirectories m) (tiValue fi)
         in (m\<lparr>filterInput := fi, filteredDirs := fd,
               directoryList := Select (SetItems (directoryList m) fd) 0\<rparr>,
             Some CmdNil)))"

text \<open>The keys \<open>n\<close> and \<open>right\<close> run the same code: go into the highlighted directory.\<close>

definition enterDirectory :: "world \<Rightarrow> model \<Rightarrow> model \<times> cmd option" where
  "enterDirectory w m =
     (case SelectedItem (directoryList m) of
        None \<Rightarrow> (m, None)
      | Some selected \<Rightarrow>
          (if isDir selected \<and> name selected \<noteq> ''..''
           then (relist w (m\<lparr>currentPath := path selected\<rparr>), Some CmdNil)
           else (m, None)))"

definition updateBrowsing :: "world \<Rightarrow> model \<Rightarrow> keyMsg \<Rightarrow> model \<times> cmd option" where
  "updateBrowsing w m k =
     (if String k = ''ctrl+c'' \<or> String k = ''q'' then (m, Some Quit)
      else if String k = ''ctrl+d'' then (m\<lparr>advancedMode := \<not> advancedMode m\<rparr>, Some CmdNil)
      else if String k = ''i'' then
        (let items = getDirectoryItems w (currentPath m)
         in (m\<lparr>filtering := True,
               filterInput := SetValue (Focus (filterInput m)) [],
               directoryList := (directoryList m)\<lparr>lmTitle := ''Filter in: '' @ currentPath m\<rparr>,
               allDirectories := convertToDirectoryItems items,
               filteredDirs := convertToDirectoryItems items\<rparr>,
             Some Blink))
      else if String k = ''enter'' then
        (case SelectedItem (directoryList m) of
           None \<Rightarrow> (m, None)
         | Some selected \<Rightarrow>
             (if name selected = ''..''
              then (relist w (m\<lparr>currentPath := path selected\<rparr>), Some CmdNil)
              else (m\<lparr>selectedDir := path selected, state := selectingOutput,
                      outputInput := SetValue (outputInput m) ''index''\<rparr>,
                    Some CmdNil)))
      else if String k = ''n'' then enterDirectory w m
      else if String k = '' '' \<or> String k = ''space'' then
        (m\<lparr>selectedDir := currentPath m, state := selectingOutput,
           outputInput := SetValue (outputInput m) ''index''\<rparr>,
         Some CmdNil)
      else if String k = ''left'' then
        (if Dir (currentPath m) \<noteq> currentPath m
         then (relist w (m\<lparr>currentPath := Dir (currentPath m)\<rparr>), Some CmdNil)
         else (m, None))
      else if String k = ''right'' then enterDirectory w m
      else (m, None))"

definition updateOutput :: "model \<Rightarrow> keyMsg \<Rightarrow> model \<times> cmd option" where
  "updateOutput m k =
     (if String k = ''ctrl+c'' \<or> String k = ''q'' then (m, Some Quit)
      else if String k = ''ctrl+d'' \<or> String k = [CHR 0x04] then
        (if TrimSpace (tiValue (outputInput m)) \<noteq> []
         then (m\<lparr>advancedMode := \<not> advancedMode m, outputPath := tiValue (outputInput m),
                 state := selectingLitigant, litigantInput := Focus (litigantInput m)\<rparr>,
               Some CmdNil)
         else (m\<lparr>advancedMode := \<not> advancedMode m\<rparr>, Some CmdNil))
      else if String k = ''b'' \<or> String k = ''backspace'' \<or> String k = ''esc'' then
        (m\<lparr>state := selectingDirectory\<rparr>, Some CmdNil)
      else if String k = ''enter'' then
        (if tiValue (outputInput m) \<noteq> []
         then (m\<lparr>outputPath := tiValue (outputInput m), state := selectingLitigant,
                 litigantInput := Focus (litigantInput m)\<rparr>,
               Some CmdNil)
         else (m, None))
      else (m, None))"

definition updateLitigant :: "model \<Rightarrow> keyMsg \<Rightarrow> model \<times> cmd option" where
  "updateLitigant m k =
     (if String k = ''ctrl+c'' \<or> String k = ''q'' then (m, Some Quit)
      else if String k = ''b'' \<or> String k = ''backspace'' \<or> String k = ''esc'' then
        (m\<lparr>state := selectingOutput, outputInput := Focus (outputInput m)\<rparr>, Some CmdNil)
      else if String k = ''enter'' then
        (m\<lparr>litigantName := tiValue (litigantInput m), state := configuring\<rparr>, Some CmdNil)
      else (m, None))"

text \<open>The key \<open>4\<close> of the review step: excel, csv, both, and excel again.\<close>

definition nextFormat :: "string \<Rightarrow> string" where
  "nextFormat f = (if f = ''excel'' then ''csv'' else if f = ''csv'' then ''both'' else ''excel'')"

definition updateConfiguring :: "model \<Rightarrow> keyMsg \<Rightarrow> model \<times> cmd option" where
  "updateConfiguring m k =
     (if String k = ''ctrl+c'' \<or> String k = ''q'' then (m, Some Quit)
      else if String k = ''ctrl+d'' \<or> String k = [CHR 0x04] then
        (m\<lparr>advancedMode := \<not> advancedMode m\<rparr>, Some CmdNil)
      else if String k = ''1'' then (m\<lparr>state := selectingDirectory\<rparr>, Some CmdNil)
      else if String k = ''2'' then (m\<lparr>state := selectingOutput\<rparr>, Some CmdNil)
      else if String k = ''3'' then
        (m\<lparr>state := selectingLitigant, litigantInput := Focus (litigantInput m)\<rparr>, Some CmdNil)
      else if String k = ''4'' then
        (if advancedMode m then (m\<lparr>exportFormat := nextFormat (exportFormat m)\<rparr>, None)
         else (m, None))
      else if String k = ''d'' then
        (if advancedMode m then (m\<lparr>debugMode := \<not> debugMode m\<rparr>, None) else (m, None))
      else if String k = ''b'' \<or> String k = ''backspace'' \<or> String k = ''esc'' then
        (m\<lparr>state := selectingOutput\<rparr>, Some CmdNil)
      else if String k = ''enter'' then
        (m\<lparr>state := processing\<rparr>, Some (RunPythonScript (m\<lparr>state := processing\<rparr>)))
      else (m, None))"

definition updateProcessing :: "model \<Rightarrow> keyMsg \<Rightarrow> model \<times> cmd option" where
  "updateProcessing m k =
     (if String k = ''ctrl+c'' \<or> String k = ''q'' then (m, Some Quit) else (m, None))"

definition updateFinished :: "world \<Rightarrow> model \<Rightarrow> keyMsg \<Rightarrow> model \<times> cmd option" where
  "updateFinished w m k =
     (if String k = ''ctrl+c'' \<or> String k = ''q'' then (m, Some Quit)
      else if String k = ''r'' then (initialModel w, Some CmdNil)
      else if String k = ''b'' \<or> String k = ''backspace'' then
        (m\<lparr>state := configuring, error := [], result := []\<rparr>, Some CmdNil)
      else if String k = ''enter'' \<or> String k = ''esc'' then (m, Some Quit)
      else (m, None))"

text \<open>The \<^verbatim>\<open>switch m.state\<close> at the end of \<^verbatim>\<open>Update\<close>, which updates the widgets.\<close>

definition updateComponents :: "model \<Rightarrow> keyMsg \<Rightarrow> model" where
  "updateComponents m k =
     (case state m of
        selectingDirectory \<Rightarrow>
          (if String k = ''up'' \<or> String k = ''down'' \<or> String k = ''j'' \<or> String k = ''k''
           then m\<lparr>directoryList := list_Update (directoryList m) k\<rparr>
           else if String k = ''left'' \<or> String k = ''right'' then m
           else if \<not> filtering m then m\<lparr>directoryList := list_Update (directoryList m) k\<rparr>
           else m)
      | selectingOutput \<Rightarrow> m\<lparr>outputInput := textinput_Update (outputInput m) k\<rparr>
      | selectingLitigant \<Rightarrow> m\<lparr>litigantInput := textinput_Update (litigantInput m) k\<rparr>
      | _ \<Rightarrow> m)"

definition handleState :: "world \<Rightarrow> model \<Rightarrow> keyMsg \<Rightarrow> model \<times> cmd option" where
  "handleState w m k =
     (case state m of
        selectingDirectory \<Rightarrow>
          (if filtering m then updateFiltering w m k else updateBrowsing w m k)
      | selectingOutput \<Rightarrow> updateOutput m k
      | selectingLitigant \<Rightarrow> updateLitigant m k
      | configuring \<Rightarrow> updateConfiguring m k
      | processing \<Rightarrow> updateProcessing m k
      | finished \<Rightarrow> updateFinished w m k)"

definition updateKey :: "world \<Rightarrow> model \<Rightarrow> keyMsg \<Rightarrow> model \<times> cmd" where
  "updateKey w m k =
     (if String k = ''ctrl+e'' then (m\<lparr>isSpanish := \<not> isSpanish m\<rparr>, CmdNil)
      else if String k = ''r'' \<and> state m \<noteq> processing then (initialModel w, CmdNil)
      else
        (case handleState w m k of
           (m', Some c) \<Rightarrow> (m', c)
         | (m', None) \<Rightarrow> (updateComponents m' k, CmdNil)))"

definition Update :: "world \<Rightarrow> model \<Rightarrow> msg \<Rightarrow> model \<times> cmd" where
  "Update w m ms =
     (case ms of
        WindowSizeMsg wd ht \<Rightarrow>
          (m\<lparr>width := wd, height := ht,
             directoryList := (directoryList m)\<lparr>lmWidth := wd - 6, lmHeight := ht - 10\<rparr>\<rparr>,
           CmdNil)
      | KeyMsg k \<Rightarrow> updateKey w m k
      | ProcessCompleteMsg pm \<Rightarrow>
          ((if msg_error pm \<noteq> []
            then m\<lparr>processing_fld := False, error := msg_error pm, state := finished\<rparr>
            else m\<lparr>processing_fld := False, result := msg_result pm, state := finished\<rparr>),
           CmdNil))"

section \<open>The event loop\<close>

text \<open>
  The terminal library runs the program as a loop over events: a key, a change of the
  window size, or the end of a command started earlier, whose message is then handed to
  \<^verbatim>\<open>Update\<close>.  \<open>pending\<close> holds the models captured by the commands that are running;
  \<^verbatim>\<open>tea.Quit\<close> ends the loop.
\<close>

record program =
  mdl :: model
  pending :: "model list"
  quitted :: bool

datatype event = KeyPress keyMsg | Resize int int | CommandDone

definition perform :: "program \<Rightarrow> model \<times> cmd \<Rightarrow> program" where
  "perform p r =
     (case snd r of
        Quit \<Rightarrow> p\<lparr>mdl := fst r, quitted := True\<rparr>
      | RunPythonScript c \<Rightarrow> p\<lparr>mdl := fst r, pending := pending p @ [c]\<rparr>
      | _ \<Rightarrow> p\<lparr>mdl := fst r\<rparr>)"

definition deliver :: "world \<Rightarrow> program \<Rightarrow> event \<Rightarrow> program" where
  "deliver w p ev =
     (if quitted p then p
      else case ev of
        KeyPress k \<Rightarrow> perform p (Update w (mdl p) (KeyMsg k))
      | Resize wd ht \<Rightarrow> perform p (Update w (mdl p) (WindowSizeMsg wd ht))
      | CommandDone \<Rightarrow>
          (case pending p of
             [] \<Rightarrow> p
           | c # cs \<Rightarrow>
               perform (p\<lparr>pending := cs\<rparr>)
                 (Update w (mdl p) (ProcessCompleteMsg (runPythonScript w c)))))"

definition startProgram :: "world \<Rightarrow> program" where
  "startProgram w = \<lparr>mdl = initialModel w, pending = [], quitted = False\<rparr>"

definition runProgram :: "world \<Rightarrow> event list \<Rightarrow> program" where
  "runProgram w evs = foldl (deliver w) (startProgram w) evs"

section \<open>The output step of the simple variant\<close>

text \<open>
  \<^verbatim>\<open>src/main.go\<close>, \<^verbatim>\<open>Update\<close>, \<^verbatim>\<open>case selectingOutput\<close>, with the fields of the
  model this case reads or writes.  \<open>toggleExtension\<close> is the value the key \<^verbatim>\<open>tab\<close> sets.
\<close>

record outputStep =
  os_state :: state
  os_outputInput :: textinput
  os_outputPath :: string
  os_exportFormat :: string

definition toggleExtension :: "string \<Rightarrow> string \<Rightarrow> string" where
  "toggleExtension fmt current =
     (if \<not> Contains current ''.'' then
        (if fmt = ''csv'' then current @ ''.csv'' else current @ ''.xlsx'')
      else if HasSuffix current ''.csv'' then TrimSuffix current ''.csv'' @ ''.xlsx''
      else if HasSuffix current ''.xlsx'' then TrimSuffix current ''.xlsx'' @ ''.csv''
      else current)"

definition updateOutput_simple :: "outputStep \<Rightarrow> keyMsg \<Rightarrow> outputStep \<times> cmd" where
  "updateOutput_simple m k =
     (if String k = ''ctrl+c'' \<or> String k = ''q'' then (m, Quit)
      else if String k = ''esc'' then (m\<lparr>os_state := selectingDirectory\<rparr>, CmdNil)
      else if String k = ''enter'' \<and> tiValue (os_outputInput m) \<noteq> [] then
        (m\<lparr>os_outputPath := tiValue (os_outputInput m), os_state := configuring\<rparr>, CmdNil)
      else if String k = ''tab'' then
        (m\<lparr>os_outputInput :=
             SetValue (os_outputInput m)
               (toggleExtension (os_exportFormat m) (tiValue (os_outputInput m)))\<rparr>,
         CmdNil)
      else (m\<lparr>os_outputInput := textinput_Update (os_outputInput m) k\<rparr>, CmdNil))"

text \<open>
  \<^verbatim>\<open>src/main.go\<close>, \<^verbatim>\<open>runPythonScript\<close>: the argument list of the simple variant, which
  has no litigant and passes \<^verbatim>\<open>m.outputPath\<close>, the name as it was entered.
\<close>

definition buildArgs_simple :: "string \<Rightarrow> string \<Rightarrow> string \<Rightarrow> string \<Rightarrow> bool \<Rightarrow> string list" where
  "buildArgs_simple script dir outPath fmt dbg =
     [script, ''--directory'', dir, ''--output'', outPath]
     @ (if fmt = ''csv'' then [''--csv-only'']
        else if fmt = ''both'' then [''--csv''] else [])
     @ (if dbg then [''--debug''] else [])"

section \<open>The words of the specification\<close>

text \<open>
  The argument list as the specification describes it: script, target directory, full
  output path (the default extension of the format added to a name without extension),
  the flag of a format other than the default, the debug flag, the litigant.
\<close>

definition defaultExtension :: "string \<Rightarrow> string" where
  "defaultExtension fmt = (if fmt = ''csv'' then ''.csv'' else ''.xlsx'')"

definition hasExtension :: "string \<Rightarrow> bool" where
  "hasExtension nm = (CHR ''.'' \<in> set nm)"

definition formatFlags :: "string \<Rightarrow> string list" where
  "formatFlags fmt =
     (if fmt = ''excel'' then [] else if fmt = ''csv'' then [''--csv-only'']
      else if fmt = ''both'' then [''--csv''] else [])"

definition specArgs :: "string \<Rightarrow> string \<Rightarrow> string \<Rightarrow> string \<Rightarrow> bool \<Rightarrow> string \<Rightarrow> string list" where
  "specArgs script dir outName fmt dbg litigant =
     [script, ''--directory'', dir, ''--output'',
      Join [dir, if hasExtension outName then outName else outName @ defaultExtension fmt]]
     @ formatFlags fmt
     @ (if dbg then [''--debug''] else [])
     @ (if litigant = [] then [] else [''--litigant'', litigant])"

text \<open>An extension the toggle of the simple variant recognizes.\<close>

definition recognizedExtension :: "string \<Rightarrow> bool" where
  "recognizedExtension nm = (suffix ''.csv'' nm \<or> suffix ''.xlsx'' nm)"

text \<open>
  What the listing is said to hold.  \<open>findsFile\<close>: an entry that is not a directory can be
  found in the directory or below it, going only through directories that can be read.
  \<open>holdsRegularFile\<close>: the directory or a directory below it contains a regular file,
  whether it can be read or not.  \<open>plainTree\<close>: every directory in the tree can be read and
  everything else in it is a regular file.
\<close>

inductive findsFile :: "node \<Rightarrow> bool" where
  here: "e \<in> set es \<Longrightarrow> \<not> entryIsDir e \<Longrightarrow> findsFile (Directory True es)"
| below: "e \<in> set es \<Longrightarrow> entryIsDir e \<Longrightarrow> findsFile (entryNode e)
    \<Longrightarrow> findsFile (Directory True es)"

code_pred findsFile .

fun holdsRegularFile :: "node \<Rightarrow> bool"
  and anyHoldsRegularFile :: "entry list \<Rightarrow> bool" where
  "holdsRegularFile (File k) = False"
| "holdsRegularFile (Directory r es) = anyHoldsRegularFile es"
| "anyHoldsRegularFile [] = False"
| "anyHoldsRegularFile (Entry n t d # es) =
     (d = File Regular \<or> holdsRegularFile d \<or> anyHoldsRegularFile es)"

fun plainTree :: "node \<Rightarrow> bool"
  and plainEntries :: "entry list \<Rightarrow> bool" where
  "plainTree (File k) = (k = Regular)"
| "plainTree (Directory r es) = (r \<and> plainEntries es)"
| "plainEntries [] = True"
| "plainEntries (Entry n t d # es) = (plainTree d \<and> plainEntries es)"

text \<open>A name made of white space characters only, the empty name included.\<close>

function whiteSpaceOnly :: "string \<Rightarrow> bool" where
  "whiteSpaceOnly s =
     (if s = [] then True
      else if leadingSpace s = 0 then False
      else whiteSpaceOnly (drop (leadingSpace s) s))"
  by pat_completeness auto
termination
proof (relation "measure length")
  show "wf (measure length)"
    by simp
next
  fix s :: string
  assume "s \<noteq> []" and "leadingSpace s \<noteq> 0"
  then show "(drop (leadingSpace s) s, s) \<in> measure length"
    by simp
qed

declare whiteSpaceOnly.simps [simp del]

text \<open>
  A name that is not hidden: not empty, not starting with a dot, not blank.  A visible
  child, in the listing that shows directories only and skips the empty ones: a
  directory in or below which a file can be found.  The children the rich lister shows
  are the visible ones with a name that is not hidden; \<open>itemOf\<close> is the item of one.
\<close>

definition listableName :: "string \<Rightarrow> bool" where
  "listableName nm = (nm \<noteq> [] \<and> \<not> prefix ''.'' nm \<and> \<not> whiteSpaceOnly nm)"

definition nonHiddenChildren :: "world \<Rightarrow> string \<Rightarrow> entry list" where
  "nonHiddenChildren w p =
     (case ReadDir w p of
        None \<Rightarrow> []
      | Some entries \<Rightarrow> filter (\<lambda>e. listableName (entryName e)) entries)"

definition visibleEntry :: "entry \<Rightarrow> bool" where
  "visibleEntry e = (entryIsDir e \<and> findsFile (entryNode e))"

definition shownEntry :: "entry \<Rightarrow> bool" where
  "shownEntry e = (visibleEntry e \<and> listableName (entryName e))"

definition itemOf :: "string \<Rightarrow> entry \<Rightarrow> directoryItem" where
  "itemOf dirPath e =
     \<lparr>name = entryName e, path = Join [dirPath, entryName e], isDir = True,
      modTime = (case entryInfo e of None \<Rightarrow> 0 | Some t \<Rightarrow> t)\<rparr>"

section \<open>Sample worlds and keys\<close>

definition sampleTree :: node where
  "sampleTree =
     Directory True
       [Entry ''home'' (Some 100) (Directory True
          [Entry ''ana'' (Some 110) (Directory True
             [Entry ''Downloads'' (Some 120) (Directory True
                [Entry ''cases'' (Some 130) (Directory True
                   [Entry ''brief.pdf'' (Some 131) (File Regular)]),
                 Entry ''old'' (Some 90) (Directory True []),
                 Entry ''scans'' (Some 140) (Directory True
                   [Entry ''p1.png'' (Some 141) (File Regular)])])])]),
        Entry ''opt'' (Some 50) (Directory True
          [Entry ''indexer'' (Some 51) (Directory True
             [Entry ''file-indexer'' (Some 52) (File Regular),
              Entry ''file_metadata_extractor.py'' (Some 53) (File Regular)])]),
        Entry ''srv'' (Some 60) (Directory True
          [Entry ''links'' (Some 61) (Directory True
             [Entry ''latest'' (Some 62) (File Symlink)]),
           Entry ''notes.txt'' (Some 63) (File Regular),
           Entry ''vault'' (Some 64) (Directory True
             [Entry ''locked'' (Some 65) (Directory False
                [Entry ''secret.txt'' (Some 66) (File Regular)])])]),
        Entry ''tmp'' (Some 70) (Directory True
          [Entry ''docs'' (Some 71) (Directory True
             [Entry ''a'' (Some 72) (Directory True
                [Entry ''f.txt'' (Some 73) (File Regular)]),
              Entry ''b'' (Some 74) (Directory True [])])])]"

text \<open>
  The lowering of the sample worlds follows the tables on the blocks Basic Latin and
  Latin-1 Supplement (U+00C0 to U+00DE but U+00D7 become U+00E0 to U+00FE) and keeps
  every other byte; the sample names are from these blocks.
\<close>

fun lowerLatin :: "string \<Rightarrow> string" where
  "lowerLatin (c # d # s) =
     (if c = CHR 0xC3 \<and> (128::nat) \<le> of_char d \<and> of_char d \<le> (158::nat) \<and> d \<noteq> CHR 0x97
      then c # char_of (of_char d + (32::nat)) # lowerLatin s
      else lowerByte c # lowerLatin (d # s))"
| "lowerLatin [c] = [lowerByte c]"
| "lowerLatin [] = []"

text \<open>Three entries named \<open>CAF\<close>\<^verbatim>\<open>U+00C9\<close>, \<open>caf\<close>\<^verbatim>\<open>U+00E9\<close> and \<open>cafe\<close>.\<close>

definition accentedNames :: "directoryItem list" where
  "accentedNames =
     [mkItem (''CAF'' @ [CHR 0xC3, CHR 0x89]), mkItem (''caf'' @ [CHR 0xC3, CHR 0xA9]),
      mkItem ''cafe'']"

definition sampleWorld :: world where
  "sampleWorld =
     \<lparr>root = sampleTree, cwd = ''/'', home = Some ''/home/ana'',
      executable = Some ''/opt/indexer/file-indexer'',
      combinedOutput = (\<lambda>prog args. (''permission denied'', Some ''exit status 1'')),
      unicodeLower = lowerLatin\<rparr>"

text \<open>A world whose root directory cannot be read.\<close>

definition lockedRootWorld :: world where
  "lockedRootWorld = sampleWorld\<lparr>root := Directory False []\<rparr>"

definition runeKey :: "char \<Rightarrow> keyMsg" where
  "runeKey c = \<lparr>kType = KeyRunes, kRunes = [c], kAlt = False\<rparr>"

definition plainKey :: "keyType \<Rightarrow> keyMsg" where
  "plainKey t = \<lparr>kType = t, kRunes = [], kAlt = False\<rparr>"

definition spaceKey :: keyMsg where
  "spaceKey = \<lparr>kType = KeySpace, kRunes = '' '', kAlt = False\<rparr>"

definition sampleModel :: model where
  "sampleModel =
     (initialModel sampleWorld)
       \<lparr>selectedDir := ''/tmp/docs'', outputPath := ''index'', litigantName := ''Ana Diaz'',
        exportFormat := ''csv'', debugMode := True\<rparr>"

definition sampleOutputStep :: outputStep where
  "sampleOutputStep =
     \<lparr>os_state = selectingOutput,
      os_outputInput = \<lparr>tiValue = ''docs_index.xlsx'', tiPos = 15, tiFocus = True\<rparr>,
      os_outputPath = [], os_exportFormat = ''both''\<rparr>"

definition pressTab :: "outputStep \<Rightarrow> outputStep" where
  "pressTab m = fst (updateOutput_simple m (plainKey KeyTab))"

definition outputValue :: "outputStep \<Rightarrow> string" where
  "outputValue m = tiValue (os_outputInput m)"

definition withOutputValue :: "string \<Rightarrow> outputStep" where
  "withOutputValue v =
     sampleOutputStep\<lparr>os_outputInput := \<lparr>tiValue = v, tiPos = length v, tiFocus = True\<rparr>\<rparr>"

definition parentEntry :: "string \<Rightarrow> directoryItem" where
  "parentEntry p = \<lparr>name = ''..'', path = p, isDir = True, modTime = 0\<rparr>"

text \<open>Entries of the sample tree, and a file with a hidden name two levels down.\<close>

definition docsA :: entry where
  "docsA = Entry ''a'' (Some 72) (Directory True [Entry ''f.txt'' (Some 73) (File Regular)])"

definition docsB :: entry where
  "docsB = Entry ''b'' (Some 74) (Directory True [])"




text \<open>
  What holds of the outcome fields in every state the event loop reaches: while the
  process runs, both texts are empty and one command is pending; once finished, exactly
  one text is set; in the other steps both are empty.
\<close>

definition outcomeInv :: "program \<Rightarrow> bool" where
  "outcomeInv p =
     (case state (mdl p) of
        processing \<Rightarrow> error (mdl p) = [] \<and> result (mdl p) = [] \<and> length (pending p) = 1
      | finished \<Rightarrow>
          pending p = []
          \<and> ((error (mdl p) \<noteq> [] \<and> result (mdl p) = [])
             \<or> (error (mdl p) = [] \<and> result (mdl p) \<noteq> []))
      | _ \<Rightarrow> pending p = [] \<and> error (mdl p) = [] \<and> result (mdl p) = [])"

definition sampleKeys :: "event list" where
  "sampleKeys =
     [KeyPress spaceKey, KeyPress (plainKey KeyEnter), KeyPress (plainKey KeyEnter),
      KeyPress (plainKey KeyEnter)]"







text \<open>
  Pressing a key, as a function of the model.  \<open>filterKey\<close>: a key the filter mode hands to
  the filter input (every key but those it or the global shortcuts catch).
  \<open>typeFilter\<close>: the key \<open>i\<close>, which opens the filter mode, then the keys \<open>ks\<close>.
\<close>

definition press :: "world \<Rightarrow> model \<Rightarrow> keyMsg \<Rightarrow> model" where
  "press w m k = fst (Update w m (KeyMsg k))"

definition filterKey :: "keyMsg \<Rightarrow> bool" where
  "filterKey k =
     (String k \<noteq> ''ctrl+e'' \<and> String k \<noteq> ''r'' \<and> String k \<noteq> ''ctrl+c'' \<and> String k \<noteq> ''q''
      \<and> String k \<noteq> ''esc'' \<and> String k \<noteq> ''enter'' \<and> String k \<noteq> ''tab'')"

definition typeFilter :: "world \<Rightarrow> model \<Rightarrow> keyMsg list \<Rightarrow> model" where
  "typeFilter w m ks = foldl (press w) (press w m (runeKey CHR ''i'')) ks"

definition shownItems :: "model \<Rightarrow> directoryItem list" where
  "shownItems m = lmItems (directoryList m)"

definition filterText :: "model \<Rightarrow> string" where
  "filterText m = tiValue (filterInput m)"

definition inFilterMode :: "world \<Rightarrow> string \<Rightarrow> model \<Rightarrow> bool" where
  "inFilterMode w p m =
     (state m = selectingDirectory \<and> filtering m \<and> currentPath m = p
      \<and> allDirectories m = getDirectoryItems w p \<and> tiFocus (filterInput m))"


definition sampleFilterKeys :: "keyMsg list" where
  "sampleFilterKeys = [runeKey CHR ''c'', runeKey CHR ''a'']"

section \<open>Properties of the library functions\<close>

lemma HasPrefix_iff_prefix: "HasPrefix s p = prefix p s"
  unfolding HasPrefix_def by (metis append_eq_conv_conj prefix_def)

lemma Contains_iff_sublist: "Contains s sub = sublist sub s"
proof (induction s)
  case Nil
  show ?case by simp
next
  case (Cons c s)
  show ?case
    by (simp add: Cons.IH HasPrefix_iff_prefix sublist_Cons_right)
qed

lemma Contains_append: "Contains (pre @ sub @ post) sub"
  by (simp add: Contains_iff_sublist)






lemma Contains_dot: "Contains s ''.'' = (CHR ''.'' \<in> set s)"
  by (induction s) (auto simp: HasPrefix_def)

lemma HasSuffix_iff_suffix: "HasSuffix s p = suffix p s"
  unfolding HasSuffix_def suffix_def
  by (metis append_eq_conv_conj append_take_drop_id diff_add_inverse2 le_add2
      length_append length_drop)

lemma TrimSuffix_append: "TrimSuffix (b @ p) p = b"
  by (simp add: TrimSuffix_def HasSuffix_def)

section \<open>Properties of the emptiness check\<close>

lemma findsFile_File: "\<not> findsFile (File k)"
  by (auto elim: findsFile.cases)

lemma findsFile_unreadable: "\<not> findsFile (Directory False es)"
  by (auto elim: findsFile.cases)

lemma findsFile_readable:
  "findsFile (Directory True es) =
     ((\<exists>e\<in>set es. \<not> entryIsDir e) \<or> (\<exists>e\<in>set es. entryIsDir e \<and> findsFile (entryNode e)))"
  by (auto elim: findsFile.cases intro: findsFile.intros)

lemma isDirEmpty_findsFile:
  "isDirEmpty n = (\<not> findsFile n)"
  "anySubdirHasFiles es = (\<exists>e\<in>set es. entryIsDir e \<and> findsFile (entryNode e))"
proof (induction n and es rule: isDirEmpty_anySubdirHasFiles.induct)
  case (1 k)
  show ?case by (simp add: findsFile_File)
next
  case (2 readable entries)
  then show ?case
    by (cases readable) (auto simp: findsFile_readable findsFile_unreadable list_ex_iff)
next
  case 3
  show ?case by simp
next
  case (4 n t d entries)
  then show ?case
    by (auto simp: entryIsDir_def)
qed

lemma plainTree_holdsRegularFile:
  "plainTree n \<Longrightarrow> holdsRegularFile n = findsFile n"
  "plainEntries es \<Longrightarrow>
     anyHoldsRegularFile es =
       ((\<exists>e\<in>set es. \<not> entryIsDir e)
        \<or> (\<exists>e\<in>set es. entryIsDir e \<and> findsFile (entryNode e)))"
proof (induction n and es rule: holdsRegularFile_anyHoldsRegularFile.induct)
  case (1 k)
  show ?case by (simp add: findsFile_File)
next
  case (2 r es)
  then show ?case by (simp add: findsFile_readable)
next
  case 3
  show ?case by simp
next
  case (4 n t d es)
  then show ?case
    by (cases d) (auto simp: entryIsDir_def findsFile_File)
qed

section \<open>Properties of the sort and of the lister\<close>

lemma mset_insertLess: "mset (insertLess lt x acc) = add_mset x (mset acc)"
  by (induction acc) auto

lemma set_insertLess: "set (insertLess lt x acc) = insert x (set acc)"
  by (induction acc) auto

lemma sorted_insertLess:
  "sorted_wrt (\<lambda>a b. key a \<le> key b) acc \<Longrightarrow>
   sorted_wrt (\<lambda>a b. (key a :: int) \<le> key b) (insertLess (\<lambda>a b. key b < key a) x acc)"
  by (induction acc) (auto simp: set_insertLess)

lemma foldl_insertLess:
  "mset (foldl (\<lambda>acc x. insertLess lt x acc) acc xs) = mset acc + mset xs"
  by (induction xs arbitrary: acc) (auto simp: mset_insertLess)

lemma foldl_insertLess_sorted:
  "sorted_wrt (\<lambda>a b. key a \<le> key b) acc \<Longrightarrow>
   sorted_wrt (\<lambda>a b. (key a :: int) \<le> key b)
     (foldl (\<lambda>acc x. insertLess (\<lambda>a b. key b < key a) x acc) acc xs)"
  by (induction xs arbitrary: acc) (auto simp: sorted_insertLess)

lemma mset_sort_Slice: "mset (sort_Slice lt xs) = mset xs"
  by (simp add: sort_Slice_def foldl_insertLess)

lemma sorted_sort_Slice:
  "sorted_wrt (\<lambda>a b. (key b :: int) \<le> key a) (sort_Slice (\<lambda>a b. key b < key a) xs)"
  using foldl_insertLess_sorted[of key "[]" xs]
  by (simp add: sort_Slice_def sorted_wrt_rev)

lemma spaceRunes_nonempty: "e \<in> set spaceRunes \<Longrightarrow> e \<noteq> []"
  by (auto simp: spaceRunes_def)

lemma leadingSpace_iff: "(0 < leadingSpace s) = (\<exists>e\<in>set spaceRunes. prefix e s)"
proof (cases "find (HasPrefix s) spaceRunes")
  case None
  then have "\<not> (\<exists>e\<in>set spaceRunes. prefix e s)"
    by (auto simp: find_None_iff HasPrefix_iff_prefix)
  moreover have "leadingSpace s = 0"
    by (simp add: leadingSpace_def None)
  ultimately show ?thesis
    by simp
next
  case (Some e)
  then have "e \<in> set spaceRunes" and "prefix e s"
    by (auto simp: find_Some_iff HasPrefix_iff_prefix)
  with Some show ?thesis
    using spaceRunes_nonempty[of e] by (auto simp: leadingSpace_def)
qed

lemma trailingSpace_suffix:
  assumes "trailingSpace s \<noteq> 0"
  shows "\<exists>e\<in>set spaceRunes. s = take (length s - trailingSpace s) s @ e"
proof (cases "find (HasSuffix s) spaceRunes")
  case None
  with assms show ?thesis
    by (simp add: trailingSpace_def)
next
  case (Some e)
  then have e: "e \<in> set spaceRunes" and "suffix e s"
    by (auto simp: find_Some_iff HasSuffix_iff_suffix)
  then obtain t where "s = t @ e"
    by (auto simp: suffix_def)
  with Some e show ?thesis
    by (auto simp: trailingSpace_def)
qed

lemma leadingSpace_trimLeftSpace: "leadingSpace (trimLeftSpace s) = 0"
  by (induction s rule: trimLeftSpace.induct) (simp add: trimLeftSpace.simps)

lemma whiteSpaceOnly_trimLeftSpace: "whiteSpaceOnly s = (trimLeftSpace s = [])"
proof (induction s rule: trimLeftSpace.induct)
  case (1 s)
  show ?case
  proof (cases "leadingSpace s = 0")
    case True
    then show ?thesis
      by (simp add: whiteSpaceOnly.simps[of s] trimLeftSpace.simps[of s])
  next
    case False
    then have "s \<noteq> []"
      using leadingSpace_iff[of s] spaceRunes_nonempty by auto
    with False 1 show ?thesis
      by (simp add: whiteSpaceOnly.simps[of s] trimLeftSpace.simps[of s])
  qed
qed

lemma trimRightSpace_empty:
  "trimRightSpace t = [] \<Longrightarrow> t = [] \<or> leadingSpace t \<noteq> 0"
proof (induction t rule: trimRightSpace.induct)
  case (1 t)
  show ?case
  proof (cases "trailingSpace t = 0")
    case True
    with 1(2) show ?thesis
      by (simp add: trimRightSpace.simps[of t])
  next
    case False
    let ?t' = "take (length t - trailingSpace t) t"
    from False 1(2) have "trimRightSpace ?t' = []"
      by (simp add: trimRightSpace.simps[of t])
    with False 1(1) have ih: "?t' = [] \<or> leadingSpace ?t' \<noteq> 0"
      by simp
    from trailingSpace_suffix[OF False] obtain e where e: "e \<in> set spaceRunes"
      and t: "t = ?t' @ e"
      by blast
    show ?thesis
    proof (cases "?t' = []")
      case True
      with t have "t = e" by simp
      with e have "\<exists>e\<in>set spaceRunes. prefix e t"
        by auto
      then show ?thesis
        by (simp add: leadingSpace_iff)
    next
      case False
      with ih obtain e' where "e' \<in> set spaceRunes" and "prefix e' ?t'"
        by (auto simp: leadingSpace_iff)
      moreover have "prefix ?t' t"
        by (rule take_is_prefix)
      ultimately have "\<exists>e\<in>set spaceRunes. prefix e t"
        by (meson prefix_order.trans)
      then show ?thesis
        by (simp add: leadingSpace_iff)
    qed
  qed
qed

lemma TrimSpace_empty: "(TrimSpace nm = []) = whiteSpaceOnly nm"
proof
  assume "TrimSpace nm = []"
  then have "trimLeftSpace nm = [] \<or> leadingSpace (trimLeftSpace nm) \<noteq> 0"
    unfolding TrimSpace_def by (rule trimRightSpace_empty)
  then show "whiteSpaceOnly nm"
    by (simp add: leadingSpace_trimLeftSpace whiteSpaceOnly_trimLeftSpace)
next
  assume "whiteSpaceOnly nm"
  then have "trimLeftSpace nm = []"
    by (simp add: whiteSpaceOnly_trimLeftSpace)
  moreover have "trimRightSpace [] = []"
    by code_simp
  ultimately show "TrimSpace nm = []"
    by (simp add: TrimSpace_def)
qed

lemma collectDirs_filter:
  "collectDirs p entries = map (itemOf p) (filter shownEntry entries)"
  by (induction entries)
    (auto simp: shownEntry_def visibleEntry_def itemOf_def listableName_def
      HasPrefix_iff_prefix TrimSpace_empty isDirEmpty_findsFile)

lemma getDirectoryItems_readable:
  assumes "ReadDir w p = Some entries"
  shows "getDirectoryItems w p =
     (if Dir p = p then [] else [parentEntry (Dir p)])
     @ sort_Slice (\<lambda>a b. modTime b < modTime a) (map (itemOf p) (filter shownEntry entries))"
  using assms
  by (simp add: getDirectoryItems_def parentItems_def parentEntry_def collectDirs_filter)

lemma shown_not_dotdot: "shownEntry e \<Longrightarrow> entryName e \<noteq> ''..''"
  by (auto simp: shownEntry_def listableName_def)

lemma names_sort_Slice: "set (map f (sort_Slice lt xs)) = set (map f xs)"
  by (metis mset_sort_Slice set_mset_mset mset_map)



lemma listing_names:
  assumes "ReadDir w p = Some entries"
  shows "set (map name (getDirectoryItems w p)) =
     (if Dir p = p then {} else {''..''}) \<union> entryName ` {e \<in> set entries. shownEntry e}"
proof -
  have "set (map name (map (itemOf p) (filter shownEntry entries)))
      = entryName ` {e \<in> set entries. shownEntry e}"
    by (auto simp: itemOf_def)
  then show ?thesis
    by (simp add: getDirectoryItems_readable[OF assms] names_sort_Slice parentEntry_def
        del: set_map)
qed

lemma listed_name_iff:
  assumes "ReadDir w p = Some entries" and "distinct (map entryName entries)"
    and "e \<in> set entries" and "entryName e \<noteq> ''..''"
  shows "(entryName e \<in> set (map name (getDirectoryItems w p))) = shownEntry e"
proof -
  have inj: "inj_on entryName (set entries)"
    using assms(2) by (simp add: distinct_map)
  have "(entryName e \<in> entryName ` {x \<in> set entries. shownEntry x}) = shownEntry e"
  proof
    assume "entryName e \<in> entryName ` {x \<in> set entries. shownEntry x}"
    then obtain x where x: "x \<in> set entries" "shownEntry x" "entryName e = entryName x"
      by auto
    with inj assms(3) have "x = e"
      by (auto dest: inj_onD)
    with x show "shownEntry e" by simp
  next
    assume "shownEntry e"
    with assms(3) show "entryName e \<in> entryName ` {x \<in> set entries. shownEntry x}"
      by auto
  qed
  with assms(4) show ?thesis
    by (auto simp: listing_names[OF assms(1)] simp del: set_map)
qed

lemma listableName_not_dotdot: "listableName nm \<Longrightarrow> nm \<noteq> ''..''"
  by (auto simp: listableName_def)

section \<open>Properties of the update function\<close>

lemma relist_frame:
  "error (relist w m) = error m" "result (relist w m) = result m"
  "state (relist w m) = state m"
  by (simp_all add: relist_def Let_def)

lemma initialModel_fields:
  "error (initialModel w) = []" "result (initialModel w) = []"
  "state (initialModel w) = selectingDirectory"
  by (simp_all add: initialModel_def Let_def)

lemma updateComponents_frame:
  "error (updateComponents m k) = error m" "result (updateComponents m k) = result m"
  "state (updateComponents m k) = state m"
  by (simp_all add: updateComponents_def split: state.split)

lemma SetValue_value: "tiValue (SetValue ti s) = s"
  by (simp add: SetValue_def)




lemma convertToDirectoryItems_id: "convertToDirectoryItems items = items"
  by (induction items) simp_all

lemma String_runeKey: "String (runeKey c) = [c]"
  by (simp add: String_def runeKey_def)

lemma String_plainKey:
  "String (plainKey KeyEsc) = ''esc''" "String (plainKey KeyEnter) = ''enter''"
  "String (plainKey KeyTab) = ''tab''"
  by (simp_all add: String_def plainKey_def)

lemma updateFiltering_error: "error (fst (updateFiltering w m k)) = error m"
  by (simp add: updateFiltering_def relist_frame Let_def split: list.split)

lemma updateBrowsing_error: "error (fst (updateBrowsing w m k)) = error m"
  by (simp add: updateBrowsing_def enterDirectory_def relist_frame Let_def
      split: option.split)

lemma updateOutput_error: "error (fst (updateOutput m k)) = error m"
  by (simp add: updateOutput_def)

lemma updateLitigant_error: "error (fst (updateLitigant m k)) = error m"
  by (simp add: updateLitigant_def)

lemma updateConfiguring_error: "error (fst (updateConfiguring m k)) = error m"
  by (simp add: updateConfiguring_def)

lemma updateProcessing_error: "error (fst (updateProcessing m k)) = error m"
  by (simp add: updateProcessing_def)

lemma updateFinished_error:
  "error (fst (updateFinished w m k)) = error m \<or> error (fst (updateFinished w m k)) = []"
  by (simp add: updateFinished_def initialModel_fields)

lemma updateComponents_error: "error (updateComponents m k) = error m"
  by (simp add: updateComponents_def split: state.split)

lemma handleState_error:
  "error (fst (handleState w m k)) = error m \<or> error (fst (handleState w m k)) = []"
  using updateFinished_error[of w m k]
  by (simp add: handleState_def updateFiltering_error updateBrowsing_error updateOutput_error
      updateLitigant_error updateConfiguring_error updateProcessing_error split: state.split)

lemma updateKey_error:
  "error (fst (updateKey w m k)) = error m \<or> error (fst (updateKey w m k)) = []"
proof -
  obtain m' c where h: "handleState w m k = (m', c)"
    by (cases "handleState w m k")
  with handleState_error[of w m k] have "error m' = error m \<or> error m' = []"
    by simp
  with h show ?thesis
    by (cases c) (auto simp: updateKey_def updateComponents_error initialModel_fields)
qed

section \<open>The filter engine returns the matching entries in order\<close>

text \<open>
  Names with letters outside ASCII are lowered by the tables: with a lowering that follows
  them on \<^verbatim>\<open>U+00C9\<close>, the filter \<open>caf\<close>\<^verbatim>\<open>U+00E9\<close> keeps \<open>CAF\<close>\<^verbatim>\<open>U+00C9\<close> and
  \<open>caf\<close>\<^verbatim>\<open>U+00E9\<close> and drops \<open>cafe\<close>.
\<close>

lemma accented_names_are_lowered_by_the_tables:
  "filterDirectories lowerLatin accentedNames (''caf'' @ [CHR 0xC3, CHR 0xA9])
     = [mkItem (''CAF'' @ [CHR 0xC3, CHR 0x89]), mkItem (''caf'' @ [CHR 0xC3, CHR 0xA9])]"
  by code_simp



section \<open>The argument list of the external process\<close>

text \<open>
  C1, as stated, fails on the simple variant (\<^verbatim>\<open>src/main.go\<close>), one of the two invokers
  it is about: the key \<open>enter\<close> of the output step stores the name as entered, and the
  invoker passes it after \<open>--output\<close>, neither joined with the selected directory nor
  given an extension.
\<close>

theorem simple_variant_output_counterexample:
  "os_outputPath (fst (updateOutput_simple (withOutputValue ''index'') (plainKey KeyEnter)))
     = ''index''
   \<and> buildArgs_simple ''x.py'' ''/tmp/docs'' ''index'' ''csv'' True
       = [''x.py'', ''--directory'', ''/tmp/docs'', ''--output'', ''index'', ''--csv-only'',
          ''--debug'']
   \<and> specArgs ''x.py'' ''/tmp/docs'' ''index'' ''csv'' True []
       = [''x.py'', ''--directory'', ''/tmp/docs'', ''--output'', ''/tmp/docs/index.csv'',
          ''--csv-only'', ''--debug'']
   \<and> buildArgs_simple ''x.py'' ''/tmp/docs'' ''index'' ''csv'' True
       \<noteq> specArgs ''x.py'' ''/tmp/docs'' ''index'' ''csv'' True []"
  by code_simp

text \<open>
  C1, amended.  The argument list \<^verbatim>\<open>runPythonScript\<close> of the rich variant builds is a
  function of the wizard state:
  the script, then \<open>--directory\<close> and the selected directory, then \<open>--output\<close> and the
  full output path, which is the selected directory joined with the output name, the
  default extension of the export format (\<open>.csv\<close> for csv, \<open>.xlsx\<close> otherwise) being
  added to a name without a dot; then \<open>--csv-only\<close> for csv or \<open>--csv\<close> for both and
  nothing for excel; then \<open>--debug\<close> exactly when debug is on; then \<open>--litigant\<close> and
  the name exactly when the name is not empty.  On the sample state (directory
  \<open>/tmp/docs\<close>, name \<open>index\<close>, csv, debug, litigant \<open>Ana Diaz\<close>) the list is as shown;
  and after the current directory of the sample world is selected and the three steps are
  confirmed as they are, the command that is started gets the directory and the name
  \<open>index.xlsx\<close> in it.  The simple variant passes the script, the selected directory, the
  output name as it is, the same format flags and the debug flag, and has no litigant.
\<close>

theorem runPythonScript_argument_list:
  "buildArgs scriptPath m =
     specArgs scriptPath (selectedDir m) (outputPath m) (exportFormat m) (debugMode m)
       (litigantName m)
   \<and> fullOutputPath m =
       Join [selectedDir m,
             if hasExtension (outputPath m) then outputPath m
             else outputPath m @ defaultExtension (exportFormat m)]
   \<and> buildArgs ''/opt/indexer/file_metadata_extractor.py'' sampleModel =
       [''/opt/indexer/file_metadata_extractor.py'', ''--directory'', ''/tmp/docs'',
        ''--output'', ''/tmp/docs/index.csv'', ''--csv-only'', ''--debug'',
        ''--litigant'', ''Ana Diaz'']
   \<and> map (buildArgs ''x.py'') (pending (runProgram sampleWorld sampleKeys)) =
       [[''x.py'', ''--directory'', ''/home/ana/Downloads'', ''--output'',
         ''/home/ana/Downloads/index.xlsx'']]
   \<and> buildArgs_simple scriptPath dir outName fmt dbg =
       [scriptPath, ''--directory'', dir, ''--output'', outName]
       @ formatFlags fmt @ (if dbg then [''--debug''] else [])"
proof -
  have a: "buildArgs scriptPath m =
     specArgs scriptPath (selectedDir m) (outputPath m) (exportFormat m) (debugMode m)
       (litigantName m)"
    by (simp add: buildArgs_def specArgs_def fullOutputPath_def outputFilename_def
        Contains_dot hasExtension_def defaultExtension_def formatFlags_def)
  have b: "fullOutputPath m =
       Join [selectedDir m,
             if hasExtension (outputPath m) then outputPath m
             else outputPath m @ defaultExtension (exportFormat m)]"
    by (simp add: fullOutputPath_def outputFilename_def Contains_dot hasExtension_def
        defaultExtension_def)
  have c: "buildArgs ''/opt/indexer/file_metadata_extractor.py'' sampleModel =
       [''/opt/indexer/file_metadata_extractor.py'', ''--directory'', ''/tmp/docs'',
        ''--output'', ''/tmp/docs/index.csv'', ''--csv-only'', ''--debug'',
        ''--litigant'', ''Ana Diaz'']"
    by (simp add: buildArgs_def sampleModel_def fullOutputPath_def outputFilename_def
        HasPrefix_def Join_def Clean_def cleanStep_def)
  have d: "map (buildArgs ''x.py'') (pending (runProgram sampleWorld sampleKeys)) =
       [[''x.py'', ''--directory'', ''/home/ana/Downloads'', ''--output'',
         ''/home/ana/Downloads/index.xlsx'']]"
    by code_simp
  have e: "buildArgs_simple scriptPath dir outName fmt dbg =
       [scriptPath, ''--directory'', dir, ''--output'', outName]
       @ formatFlags fmt @ (if dbg then [''--debug''] else [])"
    by (simp add: buildArgs_simple_def formatFlags_def)
  from a b c d e show ?thesis by blast
qed

section \<open>The extension toggle of the simple variant\<close>

lemma toggle_csv: "toggleExtension fmt (b @ ''.csv'') = b @ ''.xlsx''"
proof -
  have "suffix ''.csv'' (b @ ''.csv'')"
    by (rule suffixI) simp
  then show ?thesis
    by (simp add: toggleExtension_def Contains_dot HasSuffix_iff_suffix TrimSuffix_append)
qed

lemma toggle_xlsx: "toggleExtension fmt (b @ ''.xlsx'') = b @ ''.csv''"
proof -
  have "\<not> suffix ''.csv'' (b @ ''.xlsx'')"
    by (auto simp: suffix_def append_eq_append_conv2 Cons_eq_append_conv append_eq_Cons_conv)
  moreover have "suffix ''.xlsx'' (b @ ''.xlsx'')"
    by (rule suffixI) simp
  ultimately show ?thesis
    by (simp add: toggleExtension_def Contains_dot HasSuffix_iff_suffix TrimSuffix_append)
qed

lemma toggle_twice: "recognizedExtension v \<Longrightarrow> toggleExtension fmt (toggleExtension fmt v) = v"
  unfolding recognizedExtension_def suffix_def
  by (auto simp: toggle_csv toggle_xlsx)

lemma toggle_unrecognized:
  "hasExtension v \<Longrightarrow> \<not> recognizedExtension v \<Longrightarrow> toggleExtension fmt v = v"
  by (simp add: toggleExtension_def Contains_dot hasExtension_def recognizedExtension_def
      HasSuffix_iff_suffix)

lemma toggle_bare: "\<not> hasExtension v \<Longrightarrow> toggleExtension fmt v = v @ defaultExtension fmt"
  by (simp add: toggleExtension_def Contains_dot hasExtension_def defaultExtension_def)

lemma pressTab_value: "outputValue (pressTab m) = toggleExtension (os_exportFormat m) (outputValue m)"
  by (simp add: pressTab_def outputValue_def updateOutput_simple_def plainKey_def String_def
      SetValue_def)

lemma pressTab_format: "os_exportFormat (pressTab m) = os_exportFormat m"
  by (simp add: pressTab_def updateOutput_simple_def plainKey_def String_def)

text \<open>
  C5.  In the output step of the simple variant the key \<open>tab\<close> toggles the extension of
  the name and leaves the export format alone.  On a name that ends in \<open>.csv\<close> or
  \<open>.xlsx\<close> two presses give the name back; on a name with a dot and another ending
  one press, and so two, change nothing; on a name without a dot the first press adds
  the default extension of the export format.
\<close>

theorem extension_toggle_involution:
  "os_exportFormat (pressTab m) = os_exportFormat m
   \<and> (recognizedExtension (outputValue m) \<longrightarrow>
        outputValue (pressTab (pressTab m)) = outputValue m)
   \<and> (hasExtension (outputValue m) \<and> \<not> recognizedExtension (outputValue m) \<longrightarrow>
        outputValue (pressTab m) = outputValue m
        \<and> outputValue (pressTab (pressTab m)) = outputValue m)
   \<and> (\<not> hasExtension (outputValue m) \<longrightarrow>
        outputValue (pressTab m) = outputValue m @ defaultExtension (os_exportFormat m))"
  by (simp add: pressTab_value pressTab_format toggle_twice toggle_unrecognized toggle_bare)

theorem extension_toggle_involution_witness:
  "recognizedExtension (outputValue sampleOutputStep)
   \<and> outputValue (pressTab sampleOutputStep) = ''docs_index.csv''
   \<and> outputValue (pressTab (pressTab sampleOutputStep)) = ''docs_index.xlsx''
   \<and> hasExtension (outputValue (withOutputValue ''notes.txt''))
   \<and> \<not> recognizedExtension (outputValue (withOutputValue ''notes.txt''))
   \<and> outputValue (pressTab (pressTab (withOutputValue ''notes.txt''))) = ''notes.txt''
   \<and> \<not> hasExtension (outputValue (withOutputValue ''index''))
   \<and> outputValue (pressTab (withOutputValue ''index'')) = ''index.xlsx''"
proof -
  have r: "recognizedExtension (outputValue sampleOutputStep)"
    by (simp add: recognizedExtension_def outputValue_def sampleOutputStep_def suffix_def)
  have t: "outputValue (pressTab sampleOutputStep) = ''docs_index.csv''"
    by code_simp
  have h: "hasExtension (outputValue (withOutputValue ''notes.txt''))"
    by (simp add: hasExtension_def outputValue_def withOutputValue_def)
  have u: "\<not> recognizedExtension (outputValue (withOutputValue ''notes.txt''))"
    by (simp add: recognizedExtension_def outputValue_def withOutputValue_def suffix_def
        append_eq_Cons_conv Cons_eq_append_conv)
  have n: "\<not> hasExtension (outputValue (withOutputValue ''index''))"
    by (simp add: hasExtension_def outputValue_def withOutputValue_def)
  have f: "os_exportFormat (withOutputValue ''index'') = ''both''"
    by (simp add: withOutputValue_def sampleOutputStep_def)
  have v: "outputValue sampleOutputStep = ''docs_index.xlsx''"
    "outputValue (withOutputValue ''notes.txt'') = ''notes.txt''"
    "outputValue (withOutputValue ''index'') = ''index''"
    by (simp_all add: outputValue_def withOutputValue_def sampleOutputStep_def)
  from r t h u n f v
    extension_toggle_involution [of sampleOutputStep]
    extension_toggle_involution [of "withOutputValue ''notes.txt''"]
    extension_toggle_involution [of "withOutputValue ''index''"]
  show ?thesis
    by (simp add: defaultExtension_def)
qed

section \<open>Listing a directory that cannot be read\<close>

text \<open>
  C6, as stated, fails: on a directory that cannot be read and is not the root the lister
  returns the parent entry, not the empty sequence.
\<close>

theorem unreadable_listing_counterexample:
  "ReadDir sampleWorld ''/srv/vault/locked'' = None
   \<and> getDirectoryItems sampleWorld ''/srv/vault/locked'' = [parentEntry ''/srv/vault'']
   \<and> getDirectoryItems sampleWorld ''/srv/vault/locked'' \<noteq> []"
  by code_simp

text \<open>
  C6, amended.  For every directory path that cannot be read the lister, in the rich and
  in the simple variant, returns no entry of the directory and no error: the result is
  the parent entry alone when the path has a parent other than itself, and the empty
  sequence at the root.  No key message sets the error text of the wizard: after the
  update it is what it was, or empty.
\<close>

theorem unreadable_listing_is_parent_only:
  assumes "ReadDir w p = None"
  shows "getDirectoryItems w p = (if Dir p = p then [] else [parentEntry (Dir p)])
    \<and> getDirectoryItems_simple w p =
        (if Dir p = p then [] else [\<lparr>sname = ''..'', spath = Dir p, sisDir = True\<rparr>])
    \<and> (error (fst (Update w m (KeyMsg k))) = error m \<or> error (fst (Update w m (KeyMsg k))) = [])"
  using assms updateKey_error[of w m k]
  by (simp add: getDirectoryItems_def getDirectoryItems_simple_def parentItems_def
      parentItems_simple_def parentEntry_def Update_def)

theorem unreadable_listing_is_parent_only_witness:
  "ReadDir sampleWorld ''/srv/vault/locked'' = None
   \<and> Dir ''/srv/vault/locked'' = ''/srv/vault''
   \<and> getDirectoryItems sampleWorld ''/srv/vault/locked'' = [parentEntry ''/srv/vault'']
   \<and> getDirectoryItems_simple sampleWorld ''/srv/vault/locked''
       = [\<lparr>sname = ''..'', spath = ''/srv/vault'', sisDir = True\<rparr>]
   \<and> ReadDir lockedRootWorld ''/'' = None
   \<and> Dir ''/'' = ''/''
   \<and> getDirectoryItems lockedRootWorld ''/'' = []
   \<and> getDirectoryItems_simple lockedRootWorld ''/'' = []"
proof -
  have a: "ReadDir sampleWorld ''/srv/vault/locked'' = None"
    by code_simp
  have b: "Dir ''/srv/vault/locked'' = ''/srv/vault''"
    by code_simp
  have c: "ReadDir lockedRootWorld ''/'' = None"
    by code_simp
  have d: "Dir ''/'' = ''/''"
    by code_simp
  from a b c d
    unreadable_listing_is_parent_only [OF a, of "initialModel sampleWorld" "plainKey KeyEnter"]
    unreadable_listing_is_parent_only [OF c, of "initialModel sampleWorld" "plainKey KeyEnter"]
  show ?thesis by simp
qed

section \<open>The shape of a listing\<close>

text \<open>
  C3, as stated, fails.  The directory \<open>/srv\<close> can be read and has three children with a
  name that is not hidden, \<open>links\<close>, \<open>notes.txt\<close> and \<open>vault\<close>; the listing is the parent
  entry and \<open>links\<close>: the regular file gives no entry, and \<open>vault\<close>, a directory with a
  regular file below it (in a directory that cannot be read), gives none either, while
  \<open>links\<close>, which holds a symbolic link and no regular file, is listed.
\<close>

theorem listing_count_counterexample:
  "ReadDir sampleWorld ''/srv'' \<noteq> None
   \<and> map entryName (nonHiddenChildren sampleWorld ''/srv'') = [''links'', ''notes.txt'', ''vault'']
   \<and> map name (getDirectoryItems sampleWorld ''/srv'') = [''..'', ''links'']
   \<and> length (getDirectoryItems sampleWorld ''/srv'')
       \<noteq> length (nonHiddenChildren sampleWorld ''/srv'') + 1
   \<and> (case Stat sampleWorld ''/srv/vault'' of
         None \<Rightarrow> False | Some n \<Rightarrow> nodeIsDir n \<and> holdsRegularFile n)
   \<and> (case Stat sampleWorld ''/srv/links'' of
         None \<Rightarrow> False | Some n \<Rightarrow> nodeIsDir n \<and> \<not> holdsRegularFile n)"
  by code_simp

text \<open>
  C3, amended.  For any directory that can be read, the listing of the rich variant holds
  one entry for each child that is a directory, has a name that is not empty, does not
  start with a dot and is not blank, and in or below which an entry other than a
  directory can be found through directories that can be read; files and all other
  directories give no entry.  With N such children the listing consists of exactly one
  parent entry when the parent of the path differs from the path and of none at the
  root, followed by N entries, which are a rearrangement of the items of these children.
  The parent entry, when there is one, is first, whatever the modification times; no
  other entry has its name; and the other entries are in the order of their modification
  times, latest first.
\<close>

theorem readable_listing_shape:
  assumes "ReadDir w p = Some entries"
  shows "\<exists>rest. getDirectoryItems w p = (if Dir p = p then [] else [parentEntry (Dir p)]) @ rest
     \<and> mset rest = mset (map (itemOf p) (filter shownEntry entries))
     \<and> length rest = length (filter shownEntry entries)
     \<and> sorted_wrt (\<lambda>a b. modTime b \<le> modTime a) rest
     \<and> (\<forall>i\<in>set rest. name i \<noteq> ''..'')
     \<and> length (filter (\<lambda>i. name i = ''..'') (getDirectoryItems w p))
         = (if Dir p = p then 0 else 1)"
proof -
  let ?rest = "sort_Slice (\<lambda>a b. modTime b < modTime a) (map (itemOf p) (filter shownEntry entries))"
  have m: "mset ?rest = mset (map (itemOf p) (filter shownEntry entries))"
    by (rule mset_sort_Slice)
  have l: "length ?rest = length (filter shownEntry entries)"
    using m by (metis length_map size_mset)
  have s: "sorted_wrt (\<lambda>a b. modTime b \<le> modTime a) ?rest"
    by (rule sorted_sort_Slice)
  have "set ?rest = set (map (itemOf p) (filter shownEntry entries))"
    using m by (metis set_mset_mset)
  then have n: "\<forall>i\<in>set ?rest. name i \<noteq> ''..''"
    by (auto simp: itemOf_def dest: shown_not_dotdot)
  then have "filter (\<lambda>i. name i = ''..'') ?rest = []"
    by (simp add: filter_empty_conv)
  then have c: "length (filter (\<lambda>i. name i = ''..'') (getDirectoryItems w p))
         = (if Dir p = p then 0 else 1)"
    by (simp add: getDirectoryItems_readable[OF assms] parentEntry_def)
  from getDirectoryItems_readable[OF assms] m l s n c show ?thesis
    by blast
qed

theorem readable_listing_shape_witness:
  "ReadDir sampleWorld ''/home/ana/Downloads'' \<noteq> None
   \<and> map name (getDirectoryItems sampleWorld ''/home/ana/Downloads'') = [''..'', ''scans'', ''cases'']
   \<and> map modTime (getDirectoryItems sampleWorld ''/home/ana/Downloads'') = [0, 140, 130]
   \<and> Dir ''/'' = ''/''
   \<and> map name (getDirectoryItems sampleWorld ''/'') = [''home'', ''tmp'', ''srv'', ''opt'']"
proof -
  have r: "ReadDir sampleWorld ''/home/ana/Downloads'' \<noteq> None"
    by code_simp
  then obtain entries where a: "ReadDir sampleWorld ''/home/ana/Downloads'' = Some entries"
    by blast
  have b: "map name (getDirectoryItems sampleWorld ''/home/ana/Downloads'') = [''..'', ''scans'', ''cases'']"
    by code_simp
  have c: "map modTime (getDirectoryItems sampleWorld ''/home/ana/Downloads'') = [0, 140, 130]"
    by code_simp
  have d: "Dir ''/'' = ''/''"
    by code_simp
  have e: "map name (getDirectoryItems sampleWorld ''/'') = [''home'', ''tmp'', ''srv'', ''opt'']"
    by code_simp
  from r b c d e readable_listing_shape[OF a] show ?thesis
    by simp
qed

section \<open>Which subdirectories are listed\<close>

text \<open>
  C2, as stated, fails in both directions.  \<open>/srv/vault\<close> is a subdirectory with a name
  that is not hidden, and a directory below it contains a regular file, but that
  directory cannot be read: \<open>vault\<close> is not listed.  \<open>/srv/links\<close> contains a symbolic
  link and no regular file anywhere: \<open>links\<close> is listed.
\<close>

theorem emptiness_counterexample:
  "''vault'' \<in> set (map entryName (nonHiddenChildren sampleWorld ''/srv''))
   \<and> (case Stat sampleWorld ''/srv/vault'' of
         None \<Rightarrow> False | Some n \<Rightarrow> nodeIsDir n \<and> holdsRegularFile n)
   \<and> ''vault'' \<notin> set (map name (getDirectoryItems sampleWorld ''/srv''))
   \<and> (case Stat sampleWorld ''/srv/links'' of
         None \<Rightarrow> False | Some n \<Rightarrow> nodeIsDir n \<and> \<not> holdsRegularFile n)
   \<and> ''links'' \<in> set (map name (getDirectoryItems sampleWorld ''/srv''))"
  by code_simp

text \<open>
  C2, amended.  In a directory that can be read, a subdirectory whose name is not empty,
  not hidden and not blank is left out of the listing of the rich variant exactly when
  no entry other than a directory can be found in it or below it through directories
  that can be read.  Where every directory below can be read and everything else is a
  regular file, this is: exactly when neither it nor a directory below it contains a
  regular file.  The listing of \<open>/tmp/docs\<close>, with \<open>a\<close> holding a file and \<open>b\<close> empty, is
  the parent entry and \<open>a\<close>.  (The names in one directory are distinct.)
\<close>

theorem subdirectory_listed_iff_file_found:
  assumes "ReadDir w p = Some entries" and "distinct (map entryName entries)"
    and "e \<in> set entries" and "entryIsDir e" and "listableName (entryName e)"
  shows "(entryName e \<notin> set (map name (getDirectoryItems w p))) = (\<not> findsFile (entryNode e))
    \<and> (plainTree (entryNode e) \<longrightarrow>
         (entryName e \<notin> set (map name (getDirectoryItems w p)))
           = (\<not> holdsRegularFile (entryNode e)))
    \<and> map name (getDirectoryItems sampleWorld ''/tmp/docs'') = [''..'', ''a'']"
proof -
  have "(entryName e \<in> set (map name (getDirectoryItems w p))) = shownEntry e"
    using assms listableName_not_dotdot by (intro listed_name_iff) auto
  with assms(4,5) have a: "(entryName e \<notin> set (map name (getDirectoryItems w p)))
      = (\<not> findsFile (entryNode e))"
    by (simp add: shownEntry_def visibleEntry_def)
  have b: "map name (getDirectoryItems sampleWorld ''/tmp/docs'') = [''..'', ''a'']"
    by code_simp
  from a b show ?thesis
    by (simp add: plainTree_holdsRegularFile)
qed

theorem subdirectory_listed_iff_file_found_witness:
  "ReadDir sampleWorld ''/tmp/docs'' = Some [docsA, docsB]
   \<and> distinct (map entryName [docsA, docsB])
   \<and> entryIsDir docsA \<and> listableName (entryName docsA) \<and> plainTree (entryNode docsA)
   \<and> entryIsDir docsB \<and> listableName (entryName docsB) \<and> plainTree (entryNode docsB)
   \<and> holdsRegularFile (entryNode docsA) \<and> \<not> holdsRegularFile (entryNode docsB) 
   \<and> findsFile (entryNode docsA) \<and> \<not> findsFile (entryNode docsB)
   \<and> entryName docsA \<in> set (map name (getDirectoryItems sampleWorld ''/tmp/docs''))
   \<and> entryName docsB \<notin> set (map name (getDirectoryItems sampleWorld ''/tmp/docs''))"
proof -
  have r: "ReadDir sampleWorld ''/tmp/docs'' = Some [docsA, docsB]"
    by code_simp
  have d: "distinct (map entryName [docsA, docsB])"
    by code_simp
  have a: "entryIsDir docsA" "listableName (entryName docsA)" "plainTree (entryNode docsA)"
    "holdsRegularFile (entryNode docsA)"
    by code_simp+
  have b: "entryIsDir docsB" "listableName (entryName docsB)" "plainTree (entryNode docsB)"
    "\<not> holdsRegularFile (entryNode docsB)"
    by code_simp+
  have ma: "docsA \<in> set [docsA, docsB]" and mb: "docsB \<in> set [docsA, docsB]"
    by simp_all
  have ta: "entryName docsA \<in> set (map name (getDirectoryItems sampleWorld ''/tmp/docs''))
      \<and> findsFile (entryNode docsA)"
    using subdirectory_listed_iff_file_found [OF r d ma a(1) a(2)] a(3) a(4) by blast
  have tb: "entryName docsB \<notin> set (map name (getDirectoryItems sampleWorld ''/tmp/docs''))
      \<and> \<not> findsFile (entryNode docsB)"
    using subdirectory_listed_iff_file_found [OF r d mb b(1) b(2)] b(3) b(4) by blast
  from r d a b ta tb show ?thesis
    by blast
qed

section \<open>Directories that cannot be read count as empty\<close>



section \<open>The outcome of the external process\<close>

lemma outcomeInv_key_browse:
  assumes "outcomeInv p" "state (mdl p) = selectingDirectory"
  shows "outcomeInv (perform p (updateKey w (mdl p) k))"
  using assms
  by (auto simp: outcomeInv_def perform_def updateKey_def handleState_def updateFiltering_def
      updateBrowsing_def enterDirectory_def relist_frame initialModel_fields
      updateComponents_frame Let_def split: option.splits list.splits)

lemma outcomeInv_key_output:
  assumes "outcomeInv p" "state (mdl p) = selectingOutput"
  shows "outcomeInv (perform p (updateKey w (mdl p) k))"
  using assms
  by (auto simp: outcomeInv_def perform_def updateKey_def handleState_def updateOutput_def
      initialModel_fields updateComponents_frame)

lemma outcomeInv_key_litigant:
  assumes "outcomeInv p" "state (mdl p) = selectingLitigant"
  shows "outcomeInv (perform p (updateKey w (mdl p) k))"
  using assms
  by (auto simp: outcomeInv_def perform_def updateKey_def handleState_def updateLitigant_def
      initialModel_fields updateComponents_frame)

lemma outcomeInv_key_configuring:
  assumes "outcomeInv p" "state (mdl p) = configuring"
  shows "outcomeInv (perform p (updateKey w (mdl p) k))"
  using assms
  by (auto simp: outcomeInv_def perform_def updateKey_def handleState_def updateConfiguring_def
      initialModel_fields updateComponents_frame)

lemma outcomeInv_key_processing:
  assumes "outcomeInv p" "state (mdl p) = processing"
  shows "outcomeInv (perform p (updateKey w (mdl p) k))"
  using assms
  by (auto simp: outcomeInv_def perform_def updateKey_def handleState_def updateProcessing_def
      initialModel_fields updateComponents_frame)

lemma outcomeInv_key_finished:
  assumes "outcomeInv p" "state (mdl p) = finished"
  shows "outcomeInv (perform p (updateKey w (mdl p) k))"
  using assms
  by (auto simp: outcomeInv_def perform_def updateKey_def handleState_def updateFinished_def
      initialModel_fields updateComponents_frame)

lemma outcomeInv_key: "outcomeInv p \<Longrightarrow> outcomeInv (perform p (updateKey w (mdl p) k))"
  by (cases "state (mdl p)")
    (simp_all add: outcomeInv_key_browse outcomeInv_key_output outcomeInv_key_litigant
      outcomeInv_key_configuring outcomeInv_key_processing outcomeInv_key_finished)

lemma runPythonScript_exclusive:
  "(msg_error (runPythonScript w c) \<noteq> [] \<and> msg_result (runPythonScript w c) = [])
   \<or> (msg_error (runPythonScript w c) = [] \<and> msg_result (runPythonScript w c) \<noteq> [])"
  by (simp add: runPythonScript_def scriptNotFound_def executionFailed_def successText_def
      split: prod.split option.split)

lemma runPythonScript_failed:
  assumes "findPythonScript w \<noteq> []"
    and "combinedOutput w ''python3'' (buildArgs (findPythonScript w) c) = (out, Some err)"
  shows "msg_error (runPythonScript w c) =
      (executionFailed @ err @ [CHR 0x0A, CHR 0x0A]
       @ (if Contains err ''executable file not found'' then pythonMissingHint else [])
       @ outputHeader) @ out"
    and "msg_result (runPythonScript w c) = []"
  using assms by (simp_all add: runPythonScript_def)

lemma outcomeInv_done:
  assumes inv: "outcomeInv p"
  shows "outcomeInv (deliver w p CommandDone)"
proof (cases "pending p")
  case Nil
  with inv show ?thesis by (simp add: deliver_def)
next
  case (Cons c cs)
  with inv have st: "state (mdl p) = processing" and cs: "cs = []"
    and e: "error (mdl p) = []" and r: "result (mdl p) = []"
    by (auto simp: outcomeInv_def split: state.splits)
  show ?thesis
    using runPythonScript_exclusive[of w c] inv Cons cs e r
    by (auto simp: deliver_def perform_def Update_def outcomeInv_def)
qed

lemma outcomeInv_resize: "outcomeInv p \<Longrightarrow> outcomeInv (deliver w p (Resize wd ht))"
  by (auto simp: deliver_def perform_def Update_def outcomeInv_def split: state.splits)

lemma outcomeInv_deliver: "outcomeInv p \<Longrightarrow> outcomeInv (deliver w p ev)"
proof (cases ev)
  case (KeyPress k)
  assume "outcomeInv p"
  then show ?thesis
    using outcomeInv_key[of p w k] by (simp add: KeyPress deliver_def Update_def)
next
  case (Resize wd ht)
  assume "outcomeInv p"
  then show ?thesis
    by (simp add: Resize outcomeInv_resize)
next
  case CommandDone
  assume "outcomeInv p"
  then show ?thesis
    by (simp add: CommandDone outcomeInv_done)
qed

lemma foldl_deliver_invariant:
  "outcomeInv p \<Longrightarrow> outcomeInv (foldl (deliver w) p evs)"
  by (induction evs arbitrary: p) (simp_all add: outcomeInv_deliver)

lemma outcomeInv_run: "outcomeInv (runProgram w evs)"
  unfolding runProgram_def
  by (rule foldl_deliver_invariant)
    (simp add: outcomeInv_def startProgram_def initialModel_fields)

lemma runProgram_snoc: "runProgram w (evs @ [ev]) = deliver w (runProgram w evs) ev"
  by (simp add: runProgram_def)

text \<open>
  C7.  When the script is found and the command returns an error together with some
  captured output (the process ran and left with a status other than zero), the
  completion message has an error text that ends with that output, so contains it as it
  is, and an empty result.  In every state the event loop reaches from the start, if the
  wizard is finished then exactly one of the error text and the result is set.  And when
  such a command is pending, its completion brings the wizard to the finished state with
  the output in the error text and no result.
\<close>

theorem failed_run_reports_output:
  "(findPythonScript w \<noteq> []
      \<and> combinedOutput w ''python3'' (buildArgs (findPythonScript w) c) = (out, Some err)
     \<longrightarrow> (\<exists>pre. msg_error (runPythonScript w c) = pre @ out)
         \<and> Contains (msg_error (runPythonScript w c)) out
         \<and> msg_result (runPythonScript w c) = [])
   \<and> (state (mdl (runProgram w evs)) = finished
     \<longrightarrow> (error (mdl (runProgram w evs)) = []) \<noteq> (result (mdl (runProgram w evs)) = []))
   \<and> (\<not> quitted (runProgram w evs) \<and> pending (runProgram w evs) = c # cs
      \<and> findPythonScript w \<noteq> []
      \<and> combinedOutput w ''python3'' (buildArgs (findPythonScript w) c) = (out, Some err)
     \<longrightarrow> state (mdl (runProgram w (evs @ [CommandDone]))) = finished
         \<and> Contains (error (mdl (runProgram w (evs @ [CommandDone])))) out
         \<and> result (mdl (runProgram w (evs @ [CommandDone]))) = [])"
proof -
  let ?p = "runProgram w evs"
  have a: "(\<exists>pre. msg_error (runPythonScript w c) = pre @ out)
         \<and> Contains (msg_error (runPythonScript w c)) out
         \<and> msg_result (runPythonScript w c) = []"
    if "findPythonScript w \<noteq> []"
      "combinedOutput w ''python3'' (buildArgs (findPythonScript w) c) = (out, Some err)"
  proof -
    from runPythonScript_failed[OF that]
    obtain pre where pre: "msg_error (runPythonScript w c) = pre @ out"
      and res: "msg_result (runPythonScript w c) = []"
      by blast
    have "Contains (pre @ out @ []) out"
      by (rule Contains_append)
    with pre res show ?thesis by auto
  qed
  have inv: "outcomeInv ?p"
    by (rule outcomeInv_run)
  have b: "(error (mdl ?p) = []) \<noteq> (result (mdl ?p) = [])" if "state (mdl ?p) = finished"
    using inv that by (auto simp: outcomeInv_def)
  have d: "state (mdl (runProgram w (evs @ [CommandDone]))) = finished
         \<and> Contains (error (mdl (runProgram w (evs @ [CommandDone])))) out
         \<and> result (mdl (runProgram w (evs @ [CommandDone]))) = []"
    if q: "\<not> quitted ?p" and pe: "pending ?p = c # cs"
      and f: "findPythonScript w \<noteq> []"
      and o: "combinedOutput w ''python3'' (buildArgs (findPythonScript w) c) = (out, Some err)"
  proof -
    from inv pe have r: "result (mdl ?p) = []"
      by (auto simp: outcomeInv_def split: state.splits)
    from a[OF f o] obtain pre where pre: "msg_error (runPythonScript w c) = pre @ out"
      and c: "Contains (msg_error (runPythonScript w c)) out"
      by blast
    from runPythonScript_failed(1)[OF f o] have ne: "msg_error (runPythonScript w c) \<noteq> []"
      by (simp add: executionFailed_def)
    from q pe r c ne show ?thesis
      by (simp add: runProgram_snoc deliver_def perform_def Update_def)
  qed
  from a b d show ?thesis by blast
qed

theorem failed_run_reports_output_witness:
  "findPythonScript sampleWorld \<noteq> []
   \<and> \<not> quitted (runProgram sampleWorld sampleKeys)
   \<and> state (mdl (runProgram sampleWorld sampleKeys)) = processing
   \<and> length (pending (runProgram sampleWorld sampleKeys)) = 1
   \<and> state (mdl (runProgram sampleWorld (sampleKeys @ [CommandDone]))) = finished
   \<and> Contains (error (mdl (runProgram sampleWorld (sampleKeys @ [CommandDone])))) ''permission denied''
   \<and> result (mdl (runProgram sampleWorld (sampleKeys @ [CommandDone]))) = []
   \<and> error (mdl (runProgram sampleWorld (sampleKeys @ [CommandDone]))) \<noteq> []"
proof -
  let ?p = "runProgram sampleWorld sampleKeys"
  have f: "findPythonScript sampleWorld \<noteq> []"
    by code_simp
  have q: "\<not> quitted ?p" and s: "state (mdl ?p) = processing" and l: "length (pending ?p) = 1"
    by code_simp+
  from l obtain c cs where pe: "pending ?p = c # cs"
    by (cases "pending ?p") auto
  have o: "combinedOutput sampleWorld ''python3'' (buildArgs (findPythonScript sampleWorld) c)
      = (''permission denied'', Some ''exit status 1'')"
    by (simp add: sampleWorld_def)
  note t = failed_run_reports_output
    [of sampleWorld c "''permission denied''" "''exit status 1''" sampleKeys cs]
  from t q pe f o
  have d: "state (mdl (runProgram sampleWorld (sampleKeys @ [CommandDone]))) = finished
     \<and> Contains (error (mdl (runProgram sampleWorld (sampleKeys @ [CommandDone])))) ''permission denied''
     \<and> result (mdl (runProgram sampleWorld (sampleKeys @ [CommandDone]))) = []"
    by blast
  from failed_run_reports_output
    [of sampleWorld c "''permission denied''" "''exit status 1''" "sampleKeys @ [CommandDone]" cs] d
  have e: "error (mdl (runProgram sampleWorld (sampleKeys @ [CommandDone]))) \<noteq> []"
    by auto
  from f q s l d e show ?thesis by blast
qed

section \<open>Keys caught before the text inputs\<close>





















section \<open>The filter mode\<close>

lemma press_i:
  assumes "state m = selectingDirectory" and "\<not> filtering m"
  shows "inFilterMode w (currentPath m) (press w m (runeKey CHR ''i''))"
    and "filterText (press w m (runeKey CHR ''i'')) = []"
    and "tiPos (filterInput (press w m (runeKey CHR ''i''))) = 0"
    and "shownItems (press w m (runeKey CHR ''i'')) = shownItems m"
  using assms
  by (simp_all add: press_def Update_def updateKey_def handleState_def updateBrowsing_def
      String_runeKey convertToDirectoryItems_id Let_def inFilterMode_def filterText_def
      shownItems_def SetValue_def Focus_def)

lemma press_filterKey:
  assumes "inFilterMode w p m" and "filterKey k"
  shows "inFilterMode w p (press w m k)"
    and "filterInput (press w m k) = textinput_Update (filterInput m) k"
    and "shownItems (press w m k) = filterDirectories (unicodeLower w) (getDirectoryItems w p) (filterText (press w m k))"
  using assms
  by (simp_all add: press_def Update_def updateKey_def handleState_def updateFiltering_def
      convertToDirectoryItems_id Let_def inFilterMode_def filterKey_def filterText_def
      shownItems_def SetItems_def Select_def textinput_Update_def)

lemma press_esc:
  assumes "inFilterMode w p m"
  shows "shownItems (press w m (plainKey KeyEsc)) = getDirectoryItems w p"
    and "\<not> filtering (press w m (plainKey KeyEsc))"
    and "filterText (press w m (plainKey KeyEsc)) = []"
    and "lmCursor (directoryList (press w m (plainKey KeyEsc))) = 0"
    and "currentPath (press w m (plainKey KeyEsc)) = p"
  using assms
  by (simp_all add: press_def Update_def updateKey_def handleState_def updateFiltering_def
      String_plainKey convertToDirectoryItems_id SetValue_value relist_def Let_def
      inFilterMode_def filterText_def shownItems_def SetItems_def Select_def Blur_def)

lemma foldl_press_filterMode:
  "inFilterMode w p m \<Longrightarrow> list_all filterKey ks \<Longrightarrow> inFilterMode w p (foldl (press w) m ks)"
  by (induction ks arbitrary: m) (simp_all add: press_filterKey(1))

lemma foldl_press_shown:
  assumes "inFilterMode w p m" and "list_all filterKey ks" and "ks \<noteq> []"
  shows "shownItems (foldl (press w) m ks)
    = filterDirectories (unicodeLower w) (getDirectoryItems w p) (filterText (foldl (press w) m ks))"
proof -
  from assms(3) obtain ks' k where ks: "ks = ks' @ [k]"
    by (metis rev_exhaust)
  with assms(2) have a: "list_all filterKey ks'" and b: "filterKey k"
    by simp_all
  from foldl_press_filterMode[OF assms(1) a] b show ?thesis
    by (simp add: ks press_filterKey(3))
qed

lemma foldl_press_text:
  assumes "inFilterMode w p m" and "list_all filterKey ks"
    and "list_all (\<lambda>k. kType k = KeyRunes) ks"
    and "tiPos (filterInput m) = length (filterText m)"
  shows "filterText (foldl (press w) m ks) = filterText m @ concat (map kRunes ks)"
  using assms
proof (induction ks arbitrary: m)
  case Nil
  show ?case by simp
next
  case (Cons k ks)
  from Cons.prems have fk: "filterKey k" and rk: "kType k = KeyRunes"
    and focus: "tiFocus (filterInput m)"
    by (simp_all add: inFilterMode_def)
  have m': "inFilterMode w p (press w m k)"
    using Cons.prems(1) fk by (rule press_filterKey(1))
  have fi: "filterInput (press w m k) = textinput_Update (filterInput m) k"
    using Cons.prems(1) fk by (rule press_filterKey(2))
  from Cons.prems(4) rk focus
  have t: "filterText (press w m k) = filterText m @ kRunes k"
    and q: "tiPos (filterInput (press w m k)) = length (filterText (press w m k))"
    by (simp_all add: fi filterText_def textinput_Update_def)
  from Cons.prems have "list_all filterKey ks" "list_all (\<lambda>k. kType k = KeyRunes) ks"
    by simp_all
  from Cons.IH[OF m' this q] t show ?case
    by simp
qed

text \<open>
  C8.  From the directory step, open the filter mode, enter any keys the filter mode
  hands to its input, and leave with \<open>esc\<close>: the list shows the listing of the current
  directory again, in the listing's order, with the filter text empty; when the list
  showed that listing before, it shows what it showed before.  The file system is the
  same throughout.  In between, the list shows the listing filtered by the text entered,
  which for letter keys is the characters of the keys in order; once the text is deleted
  again, that is the whole listing.  Filtering by the empty text changes nothing.
\<close>

theorem filter_round_trip:
  assumes "state m = selectingDirectory" and "\<not> filtering m" and "list_all filterKey ks"
  shows "filtering (typeFilter w m ks)
    \<and> (ks \<noteq> [] \<longrightarrow>
         shownItems (typeFilter w m ks)
           = filterDirectories (unicodeLower w) (getDirectoryItems w (currentPath m)) (filterText (typeFilter w m ks)))
    \<and> (ks \<noteq> [] \<and> filterText (typeFilter w m ks) = [] \<longrightarrow>
         shownItems (typeFilter w m ks) = getDirectoryItems w (currentPath m))
    \<and> (list_all (\<lambda>k. kType k = KeyRunes) ks \<longrightarrow>
         filterText (typeFilter w m ks) = concat (map kRunes ks))
    \<and> \<not> filtering (press w (typeFilter w m ks) (plainKey KeyEsc))
    \<and> filterText (press w (typeFilter w m ks) (plainKey KeyEsc)) = []
    \<and> shownItems (press w (typeFilter w m ks) (plainKey KeyEsc))
        = getDirectoryItems w (currentPath m)
    \<and> (shownItems m = getDirectoryItems w (currentPath m) \<longrightarrow>
         shownItems (press w (typeFilter w m ks) (plainKey KeyEsc)) = shownItems m)
    \<and> filterDirectories (unicodeLower w) (shownItems m) [] = shownItems m"
proof -
  let ?m1 = "press w m (runeKey CHR ''i'')"
  note i = press_i[OF assms(1,2), of w]
  have fm: "inFilterMode w (currentPath m) (typeFilter w m ks)"
    unfolding typeFilter_def using i(1) assms(3) by (rule foldl_press_filterMode)
  then have a: "filtering (typeFilter w m ks)"
    by (simp add: inFilterMode_def)
  have b: "shownItems (typeFilter w m ks)
      = filterDirectories (unicodeLower w) (getDirectoryItems w (currentPath m)) (filterText (typeFilter w m ks))"
    if "ks \<noteq> []"
    unfolding typeFilter_def using i(1) assms(3) that by (rule foldl_press_shown)
  have b': "shownItems (typeFilter w m ks) = getDirectoryItems w (currentPath m)"
    if "ks \<noteq> []" "filterText (typeFilter w m ks) = []"
    using b[OF that(1)] that(2) by (simp add: filterDirectories_def)
  have c: "filterText (typeFilter w m ks) = concat (map kRunes ks)"
    if "list_all (\<lambda>k. kType k = KeyRunes) ks"
    unfolding typeFilter_def
    using foldl_press_text[OF i(1) assms(3) that] i(2,3) by simp
  note e = press_esc[OF fm]
  have d: "filterDirectories (unicodeLower w) (shownItems m) [] = shownItems m"
    by (simp add: filterDirectories_def)
  from a b b' c e(1,2,3) d show ?thesis
    by simp
qed
theorem filter_round_trip_witness:
  "state (initialModel sampleWorld) = selectingDirectory
   \<and> \<not> filtering (initialModel sampleWorld)
   \<and> list_all filterKey sampleFilterKeys
   \<and> filterText (typeFilter sampleWorld (initialModel sampleWorld) sampleFilterKeys) = ''ca''
   \<and> map name (shownItems (initialModel sampleWorld)) = [''..'', ''scans'', ''cases'']
   \<and> map name (shownItems (typeFilter sampleWorld (initialModel sampleWorld) sampleFilterKeys))
       = [''scans'', ''cases'']
   \<and> shownItems (press sampleWorld
         (typeFilter sampleWorld (initialModel sampleWorld) sampleFilterKeys) (plainKey KeyEsc))
       = shownItems (initialModel sampleWorld)"
proof -
  have a: "state (initialModel sampleWorld) = selectingDirectory"
    and b: "\<not> filtering (initialModel sampleWorld)"
    by (simp_all add: initialModel_def Let_def)
  have c: "list_all filterKey sampleFilterKeys"
    by (simp add: sampleFilterKeys_def filterKey_def String_runeKey)
  have r: "list_all (\<lambda>k. kType k = KeyRunes) sampleFilterKeys"
    by (simp add: sampleFilterKeys_def runeKey_def)
  have l: "shownItems (initialModel sampleWorld)
      = getDirectoryItems sampleWorld (currentPath (initialModel sampleWorld))"
    by (simp add: shownItems_def initialModel_def Let_def)
  have n: "map name (shownItems (initialModel sampleWorld)) = [''..'', ''scans'', ''cases'']"
    by code_simp
  have f: "map name (shownItems (typeFilter sampleWorld (initialModel sampleWorld) sampleFilterKeys))
       = [''scans'', ''cases'']"
    by code_simp
  note t = filter_round_trip [OF a b c, of sampleWorld]
  from t r have x: "filterText (typeFilter sampleWorld (initialModel sampleWorld) sampleFilterKeys)
      = ''ca''"
    by (simp add: sampleFilterKeys_def runeKey_def)
  from t l have y: "shownItems (press sampleWorld
         (typeFilter sampleWorld (initialModel sampleWorld) sampleFilterKeys) (plainKey KeyEsc))
       = shownItems (initialModel sampleWorld)"
    by blast
  from a b c x n f y show ?thesis by blast
qed

end
